theory Spec2Isabelle
  imports Complex_Main "HOL-Library.Log_Nat"
begin

section \<open>Shape Shifter: the layer/timeline reducer (src/app/store/aia/reducer.ts)\<close>

text \<open>
  The reducer is embedded as a function from a heap, a state and an action to either an
  error or a new heap and state. Time values are JavaScript numbers, that is IEEE 754
  doubles. A JavaScript \<open>TypeError\<close> raised by a property access on \<open>undefined\<close> is the
  error value of the result type.
\<close>

subsection \<open>Identifiers, errors and JavaScript sets\<close>

type_synonym ident = string
type_synonym ref = nat

datatype error = TypeError

text \<open>
  A JavaScript \<open>Set<string>\<close> iterates in insertion order and \<open>forEach\<close> is used on the
  selection sets, so a set is the list of its distinct elements in insertion order.
\<close>

type_synonym JsSet = "ident list"

definition Set_has :: "JsSet \<Rightarrow> ident \<Rightarrow> bool" where
  "Set_has s x = (x \<in> set s)"

definition Set_add :: "ident \<Rightarrow> JsSet \<Rightarrow> JsSet" where
  "Set_add x s = (if x \<in> set s then s else s @ [x])"

definition Set_delete :: "ident \<Rightarrow> JsSet \<Rightarrow> JsSet" where
  "Set_delete x s = removeAll x s"

definition Set_size :: "JsSet \<Rightarrow> nat" where
  "Set_size s = length s"

text \<open>lodash's \<open>_.isEqual\<close> on two sets: equal sizes and the same elements, in any order.\<close>

definition isEqual :: "JsSet \<Rightarrow> JsSet \<Rightarrow> bool" where
  "isEqual a b = (length a = length b \<and> set a = set b)"

subsection \<open>JavaScript numbers\<close>

text \<open>
  A JavaScript number is a double: a finite value, an infinity or \<open>NaN\<close>. A finite double is
  kept as the rational it denotes (the two zeros are one value: no operation of the
  reducer tells them apart). \<open>num k\<close> is the number with the integer value \<open>k\<close>.
\<close>

datatype JsNumber = Finite rat | PosInfinity | NegInfinity | NaN

definition num :: "int \<Rightarrow> JsNumber" where
  "num k = Finite (of_int k)"

text \<open>
  Rounding of an exact result to the nearest double, ties to even: 53 significant bits,
  the last of them of weight \<open>pow2 q\<close> with \<open>q\<close> not below \<open>-1074\<close>; a magnitude that rounds
  to \<open>pow2 1024\<close> or more is an infinity. \<open>floorLog2 a\<close> is the integer part of the binary
  logarithm of a positive rational.
\<close>

definition pow2 :: "int \<Rightarrow> rat" where
  "pow2 k = (if 0 \<le> k then 2 ^ nat k else 1 / 2 ^ nat (- k))"

definition floorLog2 :: "rat \<Rightarrow> int" where
  "floorLog2 a =
     (let (n, d) = quotient_of a; k = bitlen n - bitlen d
      in if pow2 k \<le> a then k else k - 1)"

definition roundHalfEven :: "rat \<Rightarrow> int" where
  "roundHalfEven x =
     (let f = \<lfloor>x\<rfloor>; r = x - of_int f
      in if r < 1 / 2 then f else if 1 / 2 < r then f + 1 else if even f then f else f + 1)"

definition roundMagnitude :: "rat \<Rightarrow> rat" where
  "roundMagnitude a =
     (let q = max (floorLog2 a - 52) (- 1074)
      in of_int (roundHalfEven (a / pow2 q)) * pow2 q)"

definition roundToDouble :: "rat \<Rightarrow> JsNumber" where
  "roundToDouble x =
     (if x = 0 then Finite 0
      else
        let v = roundMagnitude \<bar>x\<bar>
        in if pow2 1024 \<le> v then (if 0 < x then PosInfinity else NegInfinity)
           else Finite (if 0 < x then v else - v))"

text \<open>The operators \<open>+\<close> and \<open>-\<close> on numbers.\<close>

fun js_add :: "JsNumber \<Rightarrow> JsNumber \<Rightarrow> JsNumber" where
  "js_add (Finite a) (Finite b) = roundToDouble (a + b)"
| "js_add NaN b = NaN"
| "js_add a NaN = NaN"
| "js_add PosInfinity NegInfinity = NaN"
| "js_add NegInfinity PosInfinity = NaN"
| "js_add PosInfinity b = PosInfinity"
| "js_add NegInfinity b = NegInfinity"
| "js_add (Finite a) PosInfinity = PosInfinity"
| "js_add (Finite a) NegInfinity = NegInfinity"

fun js_neg :: "JsNumber \<Rightarrow> JsNumber" where
  "js_neg (Finite a) = Finite (- a)"
| "js_neg PosInfinity = NegInfinity"
| "js_neg NegInfinity = PosInfinity"
| "js_neg NaN = NaN"

definition js_sub :: "JsNumber \<Rightarrow> JsNumber \<Rightarrow> JsNumber" where
  "js_sub a b = js_add a (js_neg b)"

text \<open>The comparisons \<open><\<close>, \<open>>\<close> and \<open><=\<close>: false as soon as one operand is \<open>NaN\<close>.\<close>

fun js_lt :: "JsNumber \<Rightarrow> JsNumber \<Rightarrow> bool" where
  "js_lt (Finite a) (Finite b) = (a < b)"
| "js_lt (Finite a) PosInfinity = True"
| "js_lt NegInfinity (Finite b) = True"
| "js_lt NegInfinity PosInfinity = True"
| "js_lt a b = False"

definition js_gt :: "JsNumber \<Rightarrow> JsNumber \<Rightarrow> bool" where
  "js_gt a b = js_lt b a"

definition js_le :: "JsNumber \<Rightarrow> JsNumber \<Rightarrow> bool" where
  "js_le a b = (js_lt a b \<or> (a = b \<and> a \<noteq> NaN))"

text \<open>\<open>Math.abs\<close>, \<open>Math.min\<close> and \<open>Math.max\<close>: \<open>NaN\<close> as soon as one argument is \<open>NaN\<close>.\<close>

fun Math_abs :: "JsNumber \<Rightarrow> JsNumber" where
  "Math_abs (Finite a) = Finite \<bar>a\<bar>"
| "Math_abs NaN = NaN"
| "Math_abs a = PosInfinity"

definition Math_min :: "JsNumber \<Rightarrow> JsNumber \<Rightarrow> JsNumber" where
  "Math_min a b = (if a = NaN \<or> b = NaN then NaN else if js_lt b a then b else a)"

definition Math_max :: "JsNumber \<Rightarrow> JsNumber \<Rightarrow> JsNumber" where
  "Math_max a b = (if a = NaN \<or> b = NaN then NaN else if js_lt a b then b else a)"

text \<open>
  \<open>Array.prototype.sort\<close> with a comparison function: a stable sort, in which \<open>x\<close> comes
  after \<open>y\<close> when the comparison of \<open>x\<close> with \<open>y\<close> is positive.
\<close>

fun insertWith :: "('a \<Rightarrow> 'a \<Rightarrow> JsNumber) \<Rightarrow> 'a \<Rightarrow> 'a list \<Rightarrow> 'a list" where
  "insertWith compareFn x [] = [x]"
| "insertWith compareFn x (y # ys) =
     (if js_gt (compareFn x y) (num 0) then y # insertWith compareFn x ys else x # y # ys)"

definition sortWith :: "('a \<Rightarrow> 'a \<Rightarrow> JsNumber) \<Rightarrow> 'a list \<Rightarrow> 'a list" where
  "sortWith compareFn xs = foldr (insertWith compareFn) xs []"

subsection \<open>Property lookup on plain objects\<close>

text \<open>
  \<open>obj[key]\<close> on a plain object with no own property \<open>key\<close> follows the prototype chain to
  \<open>Object.prototype\<close>. What is found there is a function (of which the reducer can only read
  the \<open>length\<close>) or, for \<open>__proto__\<close>, the prototype object itself. \<open>JsString n\<close> is a string of
  \<open>n\<close> characters.
\<close>

datatype JsOther = JsFunction nat | JsString nat | JsObject

definition Object_prototype :: "string \<Rightarrow> JsOther option" where
  "Object_prototype key =
     map_of [(''constructor'', JsFunction 1), (''hasOwnProperty'', JsFunction 1),
             (''isPrototypeOf'', JsFunction 1), (''propertyIsEnumerable'', JsFunction 1),
             (''toLocaleString'', JsFunction 0), (''toString'', JsFunction 0),
             (''valueOf'', JsFunction 0), (''__defineGetter__'', JsFunction 2),
             (''__defineSetter__'', JsFunction 2), (''__lookupGetter__'', JsFunction 1),
             (''__lookupSetter__'', JsFunction 1), (''__proto__'', JsObject)] key"

datatype 'a Lookup = Own 'a | Inherited JsOther | Absent

definition getProperty :: "(string \<rightharpoonup> 'a) \<Rightarrow> string \<Rightarrow> 'a Lookup" where
  "getProperty obj key =
     (case obj key of
        Some v \<Rightarrow> Own v
      | None \<Rightarrow> (case Object_prototype key of Some v \<Rightarrow> Inherited v | None \<Rightarrow> Absent))"

subsection \<open>Paths (geometry collaborator)\<close>

type_synonym Point = "int \<times> int"

text \<open>
  Modelled from the spec: the Path class and its builder are not part of the sources at
  hand. A path is an ordered sequence of subpaths, each an ordered sequence of draw
  commands; a command may carry a command-type promotion applied on top of its own type;
  a collapsing subpath is a synthetic subpath whose commands all sit on one point. The
  coordinates of a point are never inspected by the reducer.
\<close>

record Command =
  svgChar :: char
  promotedTo :: "char option"
  endPoint :: Point

record SubPath =
  getCommands :: "Command list"
  isCollapsing :: bool

type_synonym Path = "SubPath list"

text \<open>
  Modelled from the spec: \<open>unconvertSubPath(i)\<close> reverts every command-type promotion of
  subpath \<open>i\<close>. (The reducer only calls it with an index in range.)
\<close>

definition unconvertCommand :: "Command \<Rightarrow> Command" where
  "unconvertCommand c = c\<lparr>promotedTo := None\<rparr>"

definition unconvertSubPath :: "nat \<Rightarrow> Path \<Rightarrow> Path" where
  "unconvertSubPath subIdx p =
     (if subIdx < length p
      then p[subIdx := (p ! subIdx)\<lparr>getCommands := map unconvertCommand (getCommands (p ! subIdx))\<rparr>]
      else p)"

text \<open>Modelled from the spec: \<open>deleteCollapsingSubPaths()\<close> removes every collapsing subpath.\<close>

definition deleteCollapsingSubPaths :: "Path \<Rightarrow> Path" where
  "deleteCollapsingSubPaths p = filter (\<lambda>s. \<not> isCollapsing s) p"

text \<open>
  Modelled from the spec: \<open>addCollapsingSubPath(point, numCommands)\<close> appends one collapsing
  subpath of \<open>numCommands\<close> commands, all at \<open>point\<close>.
\<close>

definition collapsingCommand :: "Point \<Rightarrow> Command" where
  "collapsingCommand pt = \<lparr>svgChar = CHR ''L'', promotedTo = None, endPoint = pt\<rparr>"

definition addCollapsingSubPath :: "Point \<Rightarrow> nat \<Rightarrow> Path \<Rightarrow> Path" where
  "addCollapsingSubPath pt numCommands p =
     p @ [\<lparr>getCommands = replicate numCommands (collapsingCommand pt), isCollapsing = True\<rparr>]"

text \<open>
  The two geometric algorithms the reducer calls, the generator of fresh ids (the
  \<open>n\<close>-th id it hands out) and the duration of a new animation are outside the sources;
  the reducer is parameterised by them. So are the properties of the built-in values of
  the JavaScript engine: \<open>builtinProperty a key\<close> is what \<open>Object.prototype[a][key]\<close> holds
  for a property \<open>a\<close> of \<open>Object.prototype\<close>, \<open>None\<close> for \<open>undefined\<close> and every other falsy
  value, \<open>JsObject\<close> for every other value without a \<open>length\<close>.
\<close>

record Env =
  getPoleOfInaccessibility :: "Path \<Rightarrow> nat \<Rightarrow> Point"
  autoConvert :: "nat \<Rightarrow> Path \<Rightarrow> Path \<Rightarrow> Path \<times> Path"
  uniqueId :: "nat \<Rightarrow> ident"
  defaultDuration :: JsNumber
  builtinProperty :: "string \<Rightarrow> string \<Rightarrow> JsOther option"

subsection \<open>Layers (tree collaborator)\<close>

text \<open>
  Modelled from the spec: a layer is a node of a tree, with a string id and a mapping from
  property names to animatable properties of the kinds Path, Color and Number; a vector
  layer is the root variant (\<open>instanceof VectorLayer\<close> is the flag \<open>isVectorLayer\<close>).
\<close>

datatype Property = PathProperty | ColorProperty | NumberProperty

datatype Layer =
  Layer (layer_id: ident) (isVectorLayer: bool)
        (animatableProperties: "(string \<times> Property) list") (children: "Layer list")

type_synonym VectorLayer = Layer

text \<open>Modelled from the spec: \<open>walk\<close> visits a node and then every descendant, depth first.\<close>

fun walk :: "Layer \<Rightarrow> Layer list" where
  "walk (Layer i v ps cs) = Layer i v ps cs # concat (map walk cs)"

text \<open>Modelled from the spec: the first node of the tree, depth first, with the given id.\<close>

definition findLayerById :: "Layer \<Rightarrow> ident \<Rightarrow> Layer option" where
  "findLayerById tree x = find (\<lambda>l. layer_id l = x) (walk tree)"

text \<open>Modelled from the spec: \<open>findOwningVectorLayer(trees, id) -> VectorLayer | none\<close>.\<close>

definition findParentVectorLayer :: "VectorLayer list \<Rightarrow> ident \<Rightarrow> VectorLayer option" where
  "findParentVectorLayer vls x = find (\<lambda>vl. findLayerById vl x \<noteq> None) vls"

text \<open>Modelled from the spec: \<open>removeNodeFromTree(root, id) -> root'\<close>.\<close>

fun removeLayerFromTree :: "Layer \<Rightarrow> ident \<Rightarrow> Layer" where
  "removeLayerFromTree (Layer i v ps cs) x =
     Layer i v ps (map (\<lambda>c. removeLayerFromTree c x) (filter (\<lambda>c. layer_id c \<noteq> x) cs))"

text \<open>Modelled from the spec: \<open>replaceNodeInTree(root, node) -> root'\<close>, substitution by id.\<close>

fun replaceLayerInTree :: "Layer \<Rightarrow> Layer \<Rightarrow> Layer" where
  "replaceLayerInTree (Layer i v ps cs) node =
     (if i = layer_id node then node
      else Layer i v ps (map (\<lambda>c. replaceLayerInTree c node) cs))"

subsection \<open>Animations and animation blocks (mutable objects)\<close>

text \<open>
  \<open>updatePathAnimationBlock\<close> assigns to fields of an animation and of a block that the
  state already holds, so animations and blocks live in a heap and the state holds their
  addresses. Arrays, sets, layers and paths are only ever copied before they are changed;
  they are values.
\<close>

text \<open>
  Modelled from the spec: a block is one of the variants Number, Color and Path, with the
  fields id, layerId, animationId, propertyName, startTime, endTime, fromValue and toValue;
  an animation has an id, a duration and its blocks. A missing value is \<open>None\<close>.
\<close>

datatype Value = PathValue Path | ColorValue string | NumberValue JsNumber

datatype BlockKind = PathAnimationBlock | ColorAnimationBlock | NumberAnimationBlock

record AnimationBlock =
  block_id :: ident
  block_kind :: BlockKind
  block_layerId :: ident
  block_animationId :: ident
  block_propertyName :: string
  block_startTime :: JsNumber
  block_endTime :: JsNumber
  block_fromValue :: "Value option"
  block_toValue :: "Value option"

record Animation =
  anim_id :: ident
  duration :: JsNumber
  blocks :: "ref list"

record Heap =
  animationAt :: "ref \<Rightarrow> Animation"
  blockAt :: "ref \<Rightarrow> AnimationBlock"
  nextRef :: ref
  nextId :: nat

text \<open>
  Modelled from the spec: the constructors. An id left out of the arguments is drawn from
  the id generator; a fresh animation is empty; a fresh vector layer has no children.
\<close>

definition new_Animation :: "Env \<Rightarrow> Heap \<Rightarrow> ref \<times> Heap" where
  "new_Animation env h =
     (nextRef h,
      h\<lparr>animationAt := (animationAt h)
           (nextRef h := \<lparr>anim_id = uniqueId env (nextId h), duration = defaultDuration env,
                          blocks = []\<rparr>),
        nextRef := Suc (nextRef h), nextId := Suc (nextId h)\<rparr>)"

definition new_VectorLayer :: "Env \<Rightarrow> Heap \<Rightarrow> VectorLayer \<times> Heap" where
  "new_VectorLayer env h =
     (Layer (uniqueId env (nextId h)) True [] [], h\<lparr>nextId := Suc (nextId h)\<rparr>)"

record BlockArgs =
  arg_layerId :: ident
  arg_animationId :: ident
  arg_propertyName :: string
  arg_startTime :: JsNumber
  arg_endTime :: JsNumber
  arg_fromValue :: "Value option"
  arg_toValue :: "Value option"

definition new_AnimationBlock :: "Env \<Rightarrow> Heap \<Rightarrow> BlockKind \<Rightarrow> BlockArgs \<Rightarrow> ref \<times> Heap" where
  "new_AnimationBlock env h kind args =
     (nextRef h,
      h\<lparr>blockAt := (blockAt h)
           (nextRef h := \<lparr>block_id = uniqueId env (nextId h), block_kind = kind,
                          block_layerId = arg_layerId args,
                          block_animationId = arg_animationId args,
                          block_propertyName = arg_propertyName args,
                          block_startTime = arg_startTime args,
                          block_endTime = arg_endTime args,
                          block_fromValue = arg_fromValue args,
                          block_toValue = arg_toValue args\<rparr>),
        nextRef := Suc (nextRef h), nextId := Suc (nextId h)\<rparr>)"

text \<open>Modelled from the spec: \<open>clone()\<close> makes a new object with the same fields.\<close>

definition clone_Animation :: "Heap \<Rightarrow> ref \<Rightarrow> ref \<times> Heap" where
  "clone_Animation h a =
     (nextRef h,
      h\<lparr>animationAt := (animationAt h)(nextRef h := animationAt h a),
        nextRef := Suc (nextRef h)\<rparr>)"

text \<open>The assignment \<open>animation.blocks = bs\<close>.\<close>

definition set_blocks :: "Heap \<Rightarrow> ref \<Rightarrow> ref list \<Rightarrow> Heap" where
  "set_blocks h a bs = h\<lparr>animationAt := (animationAt h)(a := (animationAt h a)\<lparr>blocks := bs\<rparr>)\<rparr>"

subsection \<open>The state\<close>

record LayersState =
  vectorLayers :: "VectorLayer list"
  activeVectorLayerId :: ident
  selectedLayerIds :: JsSet
  collapsedLayerIds :: JsSet
  hiddenLayerIds :: JsSet

record TimelineState =
  animations :: "ref list"
  selectedAnimationIds :: JsSet
  activeAnimationId :: ident
  selectedBlockIds :: JsSet

text \<open>
  \<open>state_animations\<close> is the property \<open>animations\<close> that \<open>updatePathAnimationBlock\<close> adds to
  the state object itself (\<open>{ ...state, animations }\<close>); every later spread of the state
  carries it along.
\<close>

record State =
  layers :: LayersState
  timeline :: TimelineState
  state_animations :: "ref list option"

definition buildInitialState :: "Env \<Rightarrow> Heap \<Rightarrow> Heap \<times> State" where
  "buildInitialState env h =
     (let (initialVectorLayer, h1) = new_VectorLayer env h;
          (initialAnimation, h2) = new_Animation env h1
      in (h2,
          \<lparr>layers = \<lparr>vectorLayers = [initialVectorLayer],
                      activeVectorLayerId = layer_id initialVectorLayer,
                      selectedLayerIds = [], collapsedLayerIds = [], hiddenLayerIds = []\<rparr>,
           timeline = \<lparr>animations = [initialAnimation], selectedAnimationIds = [],
                        activeAnimationId = anim_id (animationAt h2 initialAnimation),
                        selectedBlockIds = []\<rparr>,
           state_animations = None\<rparr>))"

subsection \<open>Array helpers\<close>

text \<open>lodash's \<open>_.findIndex\<close>; \<open>None\<close> stands for the result \<open>-1\<close>.\<close>

fun findIndex :: "('a \<Rightarrow> bool) \<Rightarrow> 'a list \<Rightarrow> nat option" where
  "findIndex P [] = None"
| "findIndex P (x # xs) = (if P x then Some 0 else map_option Suc (findIndex P xs))"

subsection \<open>Selection (lines 456-551)\<close>

definition selectAnimationId :: "State \<Rightarrow> ident \<Rightarrow> bool \<Rightarrow> State" where
  "selectAnimationId state animationId clearExisting =
     (let layers0 = layers state;
          timeline0 = timeline state;
          oldSelectedAnimationIds = selectedBlockIds timeline0;
          newSelectedAnimationIds =
            Set_add animationId (if clearExisting then [] else oldSelectedAnimationIds)
      in if isEqual oldSelectedAnimationIds newSelectedAnimationIds then state
         else
           let selectedBlockIds' =
                 (if Set_size (selectedBlockIds timeline0) \<noteq> 0 then []
                  else selectedBlockIds timeline0);
               selectedLayerIds' =
                 (if Set_size (selectedLayerIds layers0) \<noteq> 0 then []
                  else selectedLayerIds layers0)
           in state\<lparr>layers := layers0\<lparr>selectedLayerIds := selectedLayerIds'\<rparr>,
                    timeline := timeline0\<lparr>selectedAnimationIds := newSelectedAnimationIds,
                                           selectedBlockIds := selectedBlockIds'\<rparr>\<rparr>)"

definition selectBlockId :: "State \<Rightarrow> ident \<Rightarrow> bool \<Rightarrow> State" where
  "selectBlockId state blockId clearExisting =
     (let layers0 = layers state;
          timeline0 = timeline state;
          oldSelectedBlockIds = selectedBlockIds timeline0;
          newSelectedBlockIds =
            Set_add blockId (if clearExisting then [] else oldSelectedBlockIds)
      in if isEqual oldSelectedBlockIds newSelectedBlockIds then state
         else
           let selectedAnimationIds' =
                 (if Set_size (selectedAnimationIds timeline0) \<noteq> 0 then []
                  else selectedAnimationIds timeline0);
               selectedLayerIds' =
                 (if Set_size (selectedLayerIds layers0) \<noteq> 0 then []
                  else selectedLayerIds layers0)
           in state\<lparr>layers := layers0\<lparr>selectedLayerIds := selectedLayerIds'\<rparr>,
                    timeline := timeline0\<lparr>selectedBlockIds := newSelectedBlockIds,
                                           selectedAnimationIds := selectedAnimationIds'\<rparr>\<rparr>)"

text \<open>
  \<open>parentVl.id\<close> is read on every path through \<open>selectLayerId\<close>, so a layer id that no
  vector layer owns raises a \<open>TypeError\<close>.
\<close>

definition selectLayerId :: "State \<Rightarrow> ident \<Rightarrow> bool \<Rightarrow> bool \<Rightarrow> error + State" where
  "selectLayerId state layerId shouldToggle clearExisting =
     (let layers0 = layers state;
          selectedLayerIds1 =
            (if clearExisting then filter (\<lambda>i. i = layerId) (selectedLayerIds layers0)
             else selectedLayerIds layers0)
      in case findParentVectorLayer (vectorLayers layers0) layerId of
           None \<Rightarrow> Inl TypeError
         | Some parentVl \<Rightarrow>
             let (activeVectorLayerId', selectedLayerIds2) =
                   (if clearExisting \<or> activeVectorLayerId layers0 = layer_id parentVl
                    then (layer_id parentVl,
                          if shouldToggle \<and> Set_has selectedLayerIds1 layerId
                          then Set_delete layerId selectedLayerIds1
                          else Set_add layerId selectedLayerIds1)
                    else (activeVectorLayerId layers0, selectedLayerIds1));
                 timeline0 = timeline state;
                 selectedAnimationIds' =
                   (if Set_size (selectedAnimationIds timeline0) \<noteq> 0 then []
                    else selectedAnimationIds timeline0);
                 selectedBlockIds' =
                   (if Set_size (selectedBlockIds timeline0) \<noteq> 0 then []
                    else selectedBlockIds timeline0)
             in Inr (state\<lparr>layers := layers0\<lparr>selectedLayerIds := selectedLayerIds2,
                                               activeVectorLayerId := activeVectorLayerId'\<rparr>,
                           timeline := timeline0\<lparr>selectedAnimationIds := selectedAnimationIds',
                                                  selectedBlockIds := selectedBlockIds'\<rparr>\<rparr>))"

subsection \<open>The gap finder (lines 195-240)\<close>

definition newBlockDuration :: JsNumber where
  "newBlockDuration = num 100"

definition activeTime :: JsNumber where
  "activeTime = num 0"

text \<open>
  Modelled from the spec: \<open>ModelUtil.getOrderedBlocksByPropertyByLayer\<close> groups the blocks
  of an animation by layer id and property name, each group ordered by start time. The
  result is a plain object of plain objects, indexed with \<open>[]\<close> by the caller; the model
  gives their own properties: a layer id that some block of the animation has, and under
  it the property names of the blocks of that layer.
\<close>

definition getOrderedBlocksByPropertyByLayer ::
    "Heap \<Rightarrow> ref \<Rightarrow> ident \<rightharpoonup> (string \<rightharpoonup> AnimationBlock list)" where
  "getOrderedBlocksByPropertyByLayer h animation =
     (let bs = map (blockAt h) (blocks (animationAt h animation))
      in (\<lambda>layerId.
            if list_ex (\<lambda>b. block_layerId b = layerId) bs
            then Some (\<lambda>propertyName.
                   let group = filter (\<lambda>b. block_layerId b = layerId \<and>
                                            block_propertyName b = propertyName) bs
                   in if group = [] then None
                      else Some (sortWith (\<lambda>a b. js_sub (block_startTime a) (block_startTime b))
                                   group))
            else None))"

text \<open>
  Line 207: \<open>(blocksByLayerId[layer.id] || {})[propertyName] || []\<close>. Both lookups follow the
  prototype chain, and every value found on it is truthy: the result is an array of blocks
  or a value found on the chain.
\<close>

datatype Neighbors = BlockArray "AnimationBlock list" | Other JsOther

definition orEmptyArray :: "AnimationBlock list Lookup \<Rightarrow> Neighbors" where
  "orEmptyArray found =
     (case found of
        Own blockNeighbors \<Rightarrow> BlockArray blockNeighbors
      | Inherited v \<Rightarrow> Other v
      | Absent \<Rightarrow> BlockArray [])"

definition blockNeighborsOf ::
    "Env \<Rightarrow> (ident \<rightharpoonup> (string \<rightharpoonup> AnimationBlock list)) \<Rightarrow> ident \<Rightarrow> string \<Rightarrow> Neighbors" where
  "blockNeighborsOf env blocksByLayerId layerId propertyName =
     (case getProperty blocksByLayerId layerId of
        Own byProperty \<Rightarrow> orEmptyArray (getProperty byProperty propertyName)
      | Absent \<Rightarrow> orEmptyArray (getProperty Map.empty propertyName)
      | Inherited v \<Rightarrow>
          (case builtinProperty env layerId propertyName of
             Some w \<Rightarrow> Other w
           | None \<Rightarrow> BlockArray []))"

record Gap =
  gap_start :: JsNumber
  gap_end :: JsNumber

record RankedGap = Gap +
  dist :: JsNumber

text \<open>Lines 208-218: one gap before each neighbour, and one after the last.\<close>

definition buildGaps :: "AnimationBlock list \<Rightarrow> JsNumber \<Rightarrow> Gap list" where
  "buildGaps blockNeighbors animationDuration =
     map (\<lambda>i. \<lparr>gap_start = (if i = 0 then num 0 else block_endTime (blockNeighbors ! (i - 1))),
               gap_end = block_startTime (blockNeighbors ! i)\<rparr>)
         [0..<length blockNeighbors]
     @ [\<lparr>gap_start = (if blockNeighbors \<noteq> [] then block_endTime (last blockNeighbors)
                       else num 0),
         gap_end = animationDuration\<rparr>]"

text \<open>
  The same lines when \<open>blockNeighbors\<close> is not an array. A function of length 0 and a value
  without \<open>length\<close> give the one gap of an empty array. A function of positive length has no
  element 0, and reading \<open>startTime\<close> of \<open>undefined\<close> raises. The elements of a string are
  strings, whose \<open>startTime\<close> and \<open>endTime\<close> are \<open>undefined\<close>, which is \<open>NaN\<close> in the
  subtractions and comparisons that follow.
\<close>

fun gapsOf :: "Neighbors \<Rightarrow> JsNumber \<Rightarrow> error + Gap list" where
  "gapsOf (BlockArray blockNeighbors) animationDuration =
     Inr (buildGaps blockNeighbors animationDuration)"
| "gapsOf (Other (JsFunction n)) animationDuration =
     (if n = 0 then Inr (buildGaps [] animationDuration) else Inl TypeError)"
| "gapsOf (Other (JsString n)) animationDuration =
     Inr (map (\<lambda>i. \<lparr>gap_start = (if i = 0 then num 0 else NaN), gap_end = NaN\<rparr>) [0..<n]
          @ [\<lparr>gap_start = (if n \<noteq> 0 then NaN else num 0), gap_end = animationDuration\<rparr>])"
| "gapsOf (Other JsObject) animationDuration = Inr (buildGaps [] animationDuration)"

text \<open>Lines 219-227: keep the gaps wider than the new block, order them by distance.\<close>

definition rankGaps :: "Gap list \<Rightarrow> RankedGap list" where
  "rankGaps gaps =
     sortWith (\<lambda>a b. js_sub (dist a) (dist b))
       (map (\<lambda>gap. \<lparr>gap_start = gap_start gap, gap_end = gap_end gap,
                    dist = Math_min (Math_abs (js_sub (gap_end gap) activeTime))
                                    (Math_abs (js_sub (gap_start gap) activeTime))\<rparr>)
          (filter (\<lambda>gap. js_gt (js_sub (gap_end gap) (gap_start gap)) newBlockDuration) gaps))"

text \<open>Lines 236-240: the start and end time of the new block inside the chosen gap.\<close>

definition placeBlock :: "RankedGap \<Rightarrow> JsNumber \<times> JsNumber" where
  "placeBlock gap =
     (let startTime = Math_max activeTime (gap_start gap);
          endTime = Math_min (js_add startTime newBlockDuration) (gap_end gap);
          startTime' = (if js_lt (js_sub endTime startTime) newBlockDuration
                        then js_sub endTime newBlockDuration else startTime)
      in (startTime', endTime))"

text \<open>Lines 229-240: \<open>None\<close> when no gap is left, else the times in the first gap.\<close>

definition pickGap :: "Gap list \<Rightarrow> (JsNumber \<times> JsNumber) option" where
  "pickGap gaps =
     (case rankGaps gaps of
        [] \<Rightarrow> None
      | gap # _ \<Rightarrow> Some (placeBlock gap))"

text \<open>The gap finder as a whole, on an array of blocks.\<close>

definition findGap :: "AnimationBlock list \<Rightarrow> JsNumber \<Rightarrow> (JsNumber \<times> JsNumber) option" where
  "findGap blockNeighbors animationDuration =
     pickGap (buildGaps blockNeighbors animationDuration)"

subsection \<open>The timeline actions (lines 130-335)\<close>

definition ADD_ANIMATIONS :: "Heap \<Rightarrow> State \<Rightarrow> ref list \<Rightarrow> State" where
  "ADD_ANIMATIONS h state newAnimations =
     (if newAnimations = [] then state
      else
        let timeline0 = timeline state;
            animations' = animations timeline0 @ newAnimations;
            activeAnimationId' =
              (if activeAnimationId timeline0 = []
               then anim_id (animationAt h (hd newAnimations))
               else activeAnimationId timeline0)
        in state\<lparr>timeline := timeline0\<lparr>animations := animations',
                                        activeAnimationId := activeAnimationId'\<rparr>\<rparr>)"

definition ACTIVATE_ANIMATION :: "State \<Rightarrow> ident \<Rightarrow> State" where
  "ACTIVATE_ANIMATION state animationId =
     (let timeline0 = timeline state
      in if animationId = activeAnimationId timeline0 then state
         else state\<lparr>timeline := timeline0\<lparr>activeAnimationId := animationId\<rparr>\<rparr>)"

definition REPLACE_ANIMATIONS :: "Heap \<Rightarrow> State \<Rightarrow> ref list \<Rightarrow> State" where
  "REPLACE_ANIMATIONS h state replacementAnimations =
     (if replacementAnimations = [] then state
      else
        let timeline0 = timeline state;
            animations' =
              map (\<lambda>animation.
                     case find (\<lambda>r. anim_id (animationAt h r) = anim_id (animationAt h animation))
                            replacementAnimations of
                       Some replacementAnimation \<Rightarrow> replacementAnimation
                     | None \<Rightarrow> animation)
                  (animations timeline0)
        in state\<lparr>timeline := timeline0\<lparr>animations := animations'\<rparr>\<rparr>)"

text \<open>
  Lines 273-280: every animation with the id of the active one is cloned and the new block
  is appended to the clone's blocks.
\<close>

fun appendBlockToClones :: "Heap \<Rightarrow> ident \<Rightarrow> ref \<Rightarrow> ref list \<Rightarrow> ref list \<times> Heap" where
  "appendBlockToClones h animationId newBlock [] = ([], h)"
| "appendBlockToClones h animationId newBlock (anim # rest) =
     (if anim_id (animationAt h anim) \<noteq> animationId
      then (let (rs, h') = appendBlockToClones h animationId newBlock rest in (anim # rs, h'))
      else
        (let (anim', h1) = clone_Animation h anim;
             h2 = set_blocks h1 anim' (blocks (animationAt h1 anim') @ [newBlock]);
             (rs, h') = appendBlockToClones h2 animationId newBlock rest
         in (anim' # rs, h')))"

text \<open>
  When no animation has the active id, \<open>animation\<close> is \<open>undefined\<close> and reading its
  blocks and its duration (lines 206, 217) raises before anything is changed.
\<close>

definition ADD_BLOCK ::
    "Env \<Rightarrow> Heap \<Rightarrow> State \<Rightarrow> Layer \<Rightarrow> string \<Rightarrow> Value option \<Rightarrow> Value option
     \<Rightarrow> error + Heap \<times> State" where
  "ADD_BLOCK env h state layer propertyName fromValue toValue =
     (let timeline0 = timeline state
      in case find (\<lambda>anim. anim_id (animationAt h anim) = activeAnimationId timeline0)
                (animations timeline0) of
           None \<Rightarrow> Inl TypeError
         | Some animation \<Rightarrow>
             let blocksByLayerId = getOrderedBlocksByPropertyByLayer h animation;
                 blockNeighbors =
                   blockNeighborsOf env blocksByLayerId (layer_id layer) propertyName
             in case gapsOf blockNeighbors (duration (animationAt h animation)) of
                  Inl e \<Rightarrow> Inl e
                | Inr gaps \<Rightarrow>
                    (case pickGap gaps of
                       None \<Rightarrow> Inr (h, state)
                     | Some (startTime, endTime) \<Rightarrow>
                         let property = map_of (animatableProperties layer) propertyName;
                             newBlockArgs =
                               \<lparr>arg_layerId = layer_id layer,
                                arg_animationId = activeAnimationId timeline0,
                                arg_propertyName = propertyName,
                                arg_startTime = startTime, arg_endTime = endTime,
                                arg_fromValue = fromValue, arg_toValue = toValue\<rparr>;
                             kind = (case property of
                                       Some PathProperty \<Rightarrow> PathAnimationBlock
                                     | Some ColorProperty \<Rightarrow> ColorAnimationBlock
                                     | _ \<Rightarrow> NumberAnimationBlock);
                             (newBlock, h1) = new_AnimationBlock env h kind newBlockArgs;
                             (animations', h2) =
                               appendBlockToClones h1 (anim_id (animationAt h1 animation))
                                 newBlock (animations timeline0);
                             state' = selectBlockId state (block_id (blockAt h2 newBlock)) True
                         in Inr (h2,
                                 state'\<lparr>timeline := timeline0\<lparr>animations := animations'\<rparr>\<rparr>)))"

text \<open>
  Lines 303-312: the replacement blocks grouped by the id of their animation. A JavaScript
  \<open>Map\<close> keeps its keys in insertion order; it is an association list.
\<close>

fun groupByAnimationId ::
    "Heap \<Rightarrow> ref list \<Rightarrow> (ident \<times> ref list) list \<Rightarrow> (ident \<times> ref list) list" where
  "groupByAnimationId h [] blockMap = blockMap"
| "groupByAnimationId h (block # rest) blockMap =
     groupByAnimationId h rest
       (case map_of blockMap (block_animationId (blockAt h block)) of
          Some blockList \<Rightarrow>
            map (\<lambda>(k, v). if k = block_animationId (blockAt h block)
                           then (k, blockList @ [block]) else (k, v)) blockMap
        | None \<Rightarrow> blockMap @ [(block_animationId (blockAt h block), [block])])"

text \<open>Lines 314-316: the animations that own a replacement block are cloned.\<close>

fun cloneAnimationsIn :: "Heap \<Rightarrow> ident list \<Rightarrow> ref list \<Rightarrow> ref list \<times> Heap" where
  "cloneAnimationsIn h keys [] = ([], h)"
| "cloneAnimationsIn h keys (animation # rest) =
     (if anim_id (animationAt h animation) \<in> set keys
      then (let (animation', h1) = clone_Animation h animation;
                (rs, h') = cloneAnimationsIn h1 keys rest
            in (animation' # rs, h'))
      else (let (rs, h') = cloneAnimationsIn h keys rest in (animation # rs, h')))"

text \<open>
  Lines 320-322: \<open>newBlocks[_.findIndex(...)] = block\<close>. With the index \<open>-1\<close> the assignment
  sets a property named \<open>-1\<close> and leaves the elements of the array as they are.
\<close>

fun substituteBlocks :: "Heap \<Rightarrow> ref list \<Rightarrow> ref list \<Rightarrow> ref list" where
  "substituteBlocks h [] newBlocks = newBlocks"
| "substituteBlocks h (block # rest) newBlocks =
     substituteBlocks h rest
       (case findIndex (\<lambda>b. block_id (blockAt h b) = block_id (blockAt h block)) newBlocks of
          Some i \<Rightarrow> newBlocks[i := block]
        | None \<Rightarrow> newBlocks)"

text \<open>
  Lines 317-324: for each group the first animation with that id gets the new blocks; when
  there is none, \<open>animation.blocks\<close> raises.
\<close>

fun replaceBlockGroups ::
    "Heap \<Rightarrow> ref list \<Rightarrow> (ident \<times> ref list) list \<Rightarrow> error + Heap" where
  "replaceBlockGroups h animations' [] = Inr h"
| "replaceBlockGroups h animations' ((animId, replacementBlocks) # rest) =
     (case find (\<lambda>a. anim_id (animationAt h a) = animId) animations' of
        None \<Rightarrow> Inl TypeError
      | Some animation \<Rightarrow>
          replaceBlockGroups
            (set_blocks h animation
               (substituteBlocks h replacementBlocks (blocks (animationAt h animation))))
            animations' rest)"

definition REPLACE_BLOCKS :: "Heap \<Rightarrow> State \<Rightarrow> ref list \<Rightarrow> error + Heap \<times> State" where
  "REPLACE_BLOCKS h state blocks' =
     (if blocks' = [] then Inr (h, state)
      else
        let blockMap = groupByAnimationId h blocks' [];
            timeline0 = timeline state;
            (animations', h1) = cloneAnimationsIn h (map fst blockMap) (animations timeline0)
        in case replaceBlockGroups h1 animations' blockMap of
             Inl e \<Rightarrow> Inl e
           | Inr h2 \<Rightarrow> Inr (h2, state\<lparr>timeline := timeline0\<lparr>animations := animations'\<rparr>\<rparr>))"

subsection \<open>The path compatibilizer (lines 697-781)\<close>

text \<open>Modelled from the spec: the edited endpoint of a morph is its start or its end.\<close>

datatype CanvasType = Start | End

text \<open>JavaScript truthiness of a block value (\<open>if (oppPath)\<close>, line 732).\<close>

fun truthy :: "Value option \<Rightarrow> bool" where
  "truthy None = False"
| "truthy (Some (PathValue p)) = True"
| "truthy (Some (ColorValue c)) = (c \<noteq> [])"
| "truthy (Some (NumberValue n)) = (n \<noteq> num 0 \<and> n \<noteq> NaN)"

definition getBlockPathFn :: "AnimationBlock \<Rightarrow> CanvasType \<Rightarrow> Value option" where
  "getBlockPathFn block t = (if t = Start then block_fromValue block else block_toValue block)"

definition setBlockPathFn :: "Heap \<Rightarrow> ref \<Rightarrow> CanvasType \<Rightarrow> Value option \<Rightarrow> Heap" where
  "setBlockPathFn h block t p =
     (if t = Start
      then h\<lparr>blockAt := (blockAt h)(block := (blockAt h block)\<lparr>block_fromValue := p\<rparr>)\<rparr>
      else h\<lparr>blockAt := (blockAt h)(block := (blockAt h block)\<lparr>block_toValue := p\<rparr>)\<rparr>)"

text \<open>Lines 712-717: what is done to the edited path before anything else.\<close>

definition normalizePath :: "Path \<Rightarrow> Path" where
  "normalizePath path =
     deleteCollapsingSubPaths
       (foldl (\<lambda>pathMutator subIdx. unconvertSubPath subIdx pathMutator) path [0..<length path])"

text \<open>Lines 734-753: collapsing subpaths are added to the path with fewer subpaths.\<close>

definition padSubPaths :: "Env \<Rightarrow> Path \<Rightarrow> Path \<Rightarrow> Path \<times> Path" where
  "padSubPaths env path oppPath =
     (let numSubPaths = length path;
          numOppSubPaths = length oppPath
      in if numSubPaths \<noteq> numOppSubPaths then
           let pathToChange = (if numSubPaths < numOppSubPaths then path else oppPath);
               oppPathToChange = (if numSubPaths < numOppSubPaths then oppPath else path);
               minIdx = min numSubPaths numOppSubPaths;
               maxIdx = max numSubPaths numOppSubPaths;
               mutator =
                 foldl (\<lambda>m i. addCollapsingSubPath
                                 (getPoleOfInaccessibility env oppPathToChange i)
                                 (length (getCommands (oppPathToChange ! i))) m)
                       pathToChange [minIdx..<maxIdx]
           in if numSubPaths < numOppSubPaths then (mutator, oppPath) else (path, mutator)
         else (path, oppPath))"

text \<open>
  Lines 754-772: the loop over the subpath indices. Reading the commands of a subpath that
  a path does not have raises.
\<close>

fun autoConvertLoop :: "Env \<Rightarrow> nat list \<Rightarrow> Path \<Rightarrow> Path \<Rightarrow> error + Path \<times> Path" where
  "autoConvertLoop env [] path oppPath = Inr (path, oppPath)"
| "autoConvertLoop env (subIdx # rest) path oppPath =
     (if subIdx \<ge> length path \<or> subIdx \<ge> length oppPath then Inl TypeError
      else
        let numCmds = length (getCommands (path ! subIdx));
            numOppCommands = length (getCommands (oppPath ! subIdx))
        in if numCmds = numOppCommands then
             let (from, to) = autoConvert env subIdx path (unconvertSubPath subIdx oppPath)
             in autoConvertLoop env rest from to
           else autoConvertLoop env rest path oppPath)"

text \<open>Lines 733-772, for an opposite path that is there.\<close>

definition makeCompatible :: "Env \<Rightarrow> Path \<Rightarrow> Path \<Rightarrow> error + Path \<times> Path" where
  "makeCompatible env path oppPath0 =
     (let oppPath = deleteCollapsingSubPaths oppPath0;
          numSubPaths = length path;
          numOppSubPaths = length oppPath;
          (path1, oppPath1) = padSubPaths env path oppPath
      in autoConvertLoop env [0..<max numSubPaths numOppSubPaths] path1 oppPath1)"

text \<open>
  Lines 730-773: the two values to write back. An opposite value that is truthy but not a
  path has no \<open>mutate\<close> method, which raises.
\<close>

definition reconcile ::
    "Env \<Rightarrow> Path \<Rightarrow> Value option \<Rightarrow> error + Value option \<times> Value option" where
  "reconcile env path oppValue =
     (if truthy oppValue then
        (case oppValue of
           Some (PathValue oppPath) \<Rightarrow>
             (case makeCompatible env (normalizePath path) oppPath of
                Inl e \<Rightarrow> Inl e
              | Inr (path', oppPath') \<Rightarrow> Inr (Some (PathValue path'), Some (PathValue oppPath')))
         | _ \<Rightarrow> Inl TypeError)
      else Inr (Some (PathValue (normalizePath path)), oppValue))"

definition updatePathAnimationBlock ::
    "Env \<Rightarrow> Heap \<Rightarrow> State \<Rightarrow> ident \<Rightarrow> CanvasType \<Rightarrow> Path \<Rightarrow> error + Heap \<times> State" where
  "updatePathAnimationBlock env h state blockId source path =
     (let timeline0 = timeline state;
          animations' = animations timeline0
      in case findIndex (\<lambda>a. anim_id (animationAt h a) = activeAnimationId timeline0)
                animations' of
           None \<Rightarrow> Inl TypeError
         | Some activeAnimationIndex \<Rightarrow>
             let activeAnimation = animations' ! activeAnimationIndex;
                 activeAnimationBlocks = blocks (animationAt h activeAnimation)
             in case findIndex (\<lambda>b. block_id (blockAt h b) = blockId) activeAnimationBlocks of
                  None \<Rightarrow> Inl TypeError
                | Some blockIndex \<Rightarrow>
                    let block = activeAnimationBlocks ! blockIndex;
                        oppSource = (if source = Start then End else Start)
                    in case reconcile env path (getBlockPathFn (blockAt h block) oppSource) of
                         Inl e \<Rightarrow> Inl e
                       | Inr (path', oppPath') \<Rightarrow>
                           let h1 = setBlockPathFn h block source path';
                               h2 = setBlockPathFn h1 block oppSource oppPath';
                               h3 = set_blocks h2 activeAnimation
                                      (activeAnimationBlocks[blockIndex := block])
                           in Inr (h3,
                                   state\<lparr>state_animations :=
                                           Some (animations'[activeAnimationIndex := activeAnimation])\<rparr>))"

subsection \<open>The layer actions (lines 337-440)\<close>

text \<open>The vector layer \<open>vl\<close> with \<open>vl.children\<close> assigned on a clone of it.\<close>

definition set_children :: "Layer \<Rightarrow> Layer list \<Rightarrow> Layer" where
  "set_children l cs = Layer (layer_id l) (isVectorLayer l) (animatableProperties l) cs"

text \<open>
  When no vector layer has the active id, \<open>existingVectorLayers[-1]\<close> is \<open>undefined\<close> and
  the call of \<open>clone\<close> raises.
\<close>

definition ADD_LAYERS :: "State \<Rightarrow> Layer list \<Rightarrow> error + State" where
  "ADD_LAYERS state addedLayers =
     (if addedLayers = [] then Inr state
      else
        let addedVectorLayers = filter isVectorLayer addedLayers;
            layers0 = layers state;
            existingVectorLayers = vectorLayers layers0 @ addedVectorLayers;
            addedNonVectorLayers = filter (\<lambda>l. \<not> isVectorLayer l) addedLayers
        in case findIndex (\<lambda>vl. layer_id vl = activeVectorLayerId layers0)
                  existingVectorLayers of
             None \<Rightarrow> Inl TypeError
           | Some activeVlIndex \<Rightarrow>
               let vl = existingVectorLayers ! activeVlIndex;
                   vl' = set_children vl (children vl @ addedNonVectorLayers)
               in Inr (state\<lparr>layers :=
                               layers0\<lparr>vectorLayers := existingVectorLayers[activeVlIndex := vl']\<rparr>\<rparr>))"

definition CLEAR_LAYER_SELECTIONS :: "State \<Rightarrow> State" where
  "CLEAR_LAYER_SELECTIONS state =
     (let layers0 = layers state
      in state\<lparr>layers := layers0\<lparr>selectedLayerIds := []\<rparr>\<rparr>)"

text \<open>
  Lines 383-391: \<open>_.forEach\<close> stops at the first vector layer that has the layer; the ids
  of that layer and of its descendants are added.
\<close>

fun collectLayerIds :: "VectorLayer list \<Rightarrow> ident \<Rightarrow> JsSet \<Rightarrow> JsSet" where
  "collectLayerIds [] layerId layerIds = layerIds"
| "collectLayerIds (vl # rest) layerId layerIds =
     (case findLayerById vl layerId of
        None \<Rightarrow> collectLayerIds rest layerId layerIds
      | Some layer \<Rightarrow> foldl (\<lambda>ids l. Set_add (layer_id l) ids) layerIds (walk layer))"

definition TOGGLE_LAYER_EXPANSION :: "State \<Rightarrow> ident \<Rightarrow> bool \<Rightarrow> State" where
  "TOGGLE_LAYER_EXPANSION state layerId recursive =
     (let layers0 = layers state;
          layerIds = (if recursive then collectLayerIds (vectorLayers layers0) layerId [layerId]
                      else [layerId]);
          collapsedLayerIds' =
            (if Set_has (collapsedLayerIds layers0) layerId
             then foldl (\<lambda>c i. Set_delete i c) (collapsedLayerIds layers0) layerIds
             else foldl (\<lambda>c i. Set_add i c) (collapsedLayerIds layers0) layerIds)
      in state\<lparr>layers := layers0\<lparr>collapsedLayerIds := collapsedLayerIds'\<rparr>\<rparr>)"

definition TOGGLE_LAYER_VISIBILITY :: "State \<Rightarrow> ident \<Rightarrow> State" where
  "TOGGLE_LAYER_VISIBILITY state layerId =
     (let layers0 = layers state;
          hiddenLayerIds' =
            (if Set_has (hiddenLayerIds layers0) layerId
             then Set_delete layerId (hiddenLayerIds layers0)
             else Set_add layerId (hiddenLayerIds layers0))
      in state\<lparr>layers := layers0\<lparr>hiddenLayerIds := hiddenLayerIds'\<rparr>\<rparr>)"

text \<open>
  When the replacement is not a vector layer and no vector layer owns its id,
  \<open>replaceLayerInTree\<close> is called with \<open>undefined\<close>, which raises.
\<close>

definition REPLACE_LAYER :: "State \<Rightarrow> Layer \<Rightarrow> error + State" where
  "REPLACE_LAYER state replacementLayer =
     (let layers0 = layers state
      in case (if isVectorLayer replacementLayer then Inr replacementLayer
               else case findParentVectorLayer (vectorLayers layers0)
                           (layer_id replacementLayer) of
                      None \<Rightarrow> Inl TypeError
                    | Some vl \<Rightarrow> Inr (replaceLayerInTree vl replacementLayer)) of
           Inl e \<Rightarrow> Inl e
         | Inr replacementVl \<Rightarrow>
             let replacementId = layer_id replacementVl;
                 vectorLayers' =
                   map (\<lambda>vl. if layer_id vl = replacementId then replacementVl else vl)
                       (vectorLayers layers0)
             in Inr (state\<lparr>layers := layers0\<lparr>vectorLayers := vectorLayers'\<rparr>\<rparr>))"

subsection \<open>Deleting the selected models (lines 442-448, 553-662)\<close>

definition deleteSelectedAnimations :: "Env \<Rightarrow> Heap \<Rightarrow> State \<Rightarrow> Heap \<times> State" where
  "deleteSelectedAnimations env h state =
     (let timeline0 = timeline state;
          selectedAnimationIds' = selectedAnimationIds timeline0
      in if Set_size selectedAnimationIds' = 0 then (h, state)
         else
           let animations0 =
                 filter (\<lambda>animation. \<not> Set_has selectedAnimationIds' (anim_id (animationAt h animation)))
                        (animations timeline0);
               (animations', h') =
                 (if animations0 = []
                  then (let (a, h1) = new_Animation env h in (animations0 @ [a], h1))
                  else (animations0, h));
               activeAnimationId' =
                 (if Set_has selectedAnimationIds' (activeAnimationId timeline0)
                  then anim_id (animationAt h' (hd animations'))
                  else activeAnimationId timeline0)
           in (h', state\<lparr>timeline := timeline0\<lparr>animations := animations',
                                                 activeAnimationId := activeAnimationId',
                                                 selectedAnimationIds := []\<rparr>\<rparr>))"

text \<open>Lines 590-599: an animation that loses a block is cloned.\<close>

fun removeSelectedBlocks :: "Heap \<Rightarrow> JsSet \<Rightarrow> ref list \<Rightarrow> ref list \<times> Heap" where
  "removeSelectedBlocks h selectedBlockIds' [] = ([], h)"
| "removeSelectedBlocks h selectedBlockIds' (animation # rest) =
     (let existingBlocks = blocks (animationAt h animation);
          newBlocks = filter (\<lambda>b. \<not> Set_has selectedBlockIds' (block_id (blockAt h b)))
                        existingBlocks
      in if length existingBlocks = length newBlocks
         then (let (rs, h') = removeSelectedBlocks h selectedBlockIds' rest
               in (animation # rs, h'))
         else (let (clonedAnimation, h1) = clone_Animation h animation;
                   h2 = set_blocks h1 clonedAnimation newBlocks;
                   (rs, h') = removeSelectedBlocks h2 selectedBlockIds' rest
               in (clonedAnimation # rs, h')))"

definition deleteSelectedBlocks :: "Heap \<Rightarrow> State \<Rightarrow> Heap \<times> State" where
  "deleteSelectedBlocks h state =
     (let timeline0 = timeline state;
          selectedBlockIds' = selectedBlockIds timeline0
      in if Set_size selectedBlockIds' = 0 then (h, state)
         else
           let (animations', h') = removeSelectedBlocks h selectedBlockIds' (animations timeline0)
           in (h', state\<lparr>timeline := timeline0\<lparr>animations := animations',
                                                 selectedBlockIds := []\<rparr>\<rparr>))"

text \<open>
  Lines 620-634, one selected layer id. \<open>splice(-1, 1)\<close> removes the last element and an
  assignment at index \<open>-1\<close> leaves the elements as they are; \<open>None\<close> is the index \<open>-1\<close>.
\<close>

definition deleteLayer ::
    "VectorLayer list \<times> JsSet \<times> JsSet \<Rightarrow> ident \<Rightarrow> VectorLayer list \<times> JsSet \<times> JsSet" where
  "deleteLayer acc layerId =
     (case acc of (vectorLayers', collapsedLayerIds', hiddenLayerIds') \<Rightarrow>
        (case findParentVectorLayer vectorLayers' layerId of
           None \<Rightarrow> acc
         | Some parentVl \<Rightarrow>
             let vlIndex = findIndex (\<lambda>vl. layer_id vl = layer_id parentVl) vectorLayers';
                 vectorLayers'' =
                   (if layer_id parentVl = layerId
                    then (case vlIndex of
                            Some i \<Rightarrow> take i vectorLayers' @ drop (Suc i) vectorLayers'
                          | None \<Rightarrow> butlast vectorLayers')
                    else (case vlIndex of
                            Some i \<Rightarrow> vectorLayers'[i := removeLayerFromTree parentVl layerId]
                          | None \<Rightarrow> vectorLayers'))
             in (vectorLayers'', Set_delete layerId collapsedLayerIds',
                 Set_delete layerId hiddenLayerIds')))"

definition deleteSelectedLayers :: "Env \<Rightarrow> Heap \<Rightarrow> State \<Rightarrow> Heap \<times> State" where
  "deleteSelectedLayers env h state =
     (let layers0 = layers state;
          selectedLayerIds' = selectedLayerIds layers0
      in if Set_size selectedLayerIds' = 0 then (h, state)
         else
           let (vectorLayers1, collapsedLayerIds1, hiddenLayerIds1) =
                 foldl deleteLayer
                   (vectorLayers layers0, collapsedLayerIds layers0, hiddenLayerIds layers0)
                   selectedLayerIds';
               collapsedLayerIds' =
                 (if Set_size collapsedLayerIds1 = Set_size (collapsedLayerIds layers0)
                  then collapsedLayerIds layers0 else collapsedLayerIds1);
               hiddenLayerIds' =
                 (if Set_size hiddenLayerIds1 = Set_size (hiddenLayerIds layers0)
                  then hiddenLayerIds layers0 else hiddenLayerIds1);
               (vectorLayers', h') =
                 (if vectorLayers1 = []
                  then (let (vl, h1) = new_VectorLayer env h in (vectorLayers1 @ [vl], h1))
                  else (vectorLayers1, h));
               activeVectorLayerId' =
                 (if find (\<lambda>vl. layer_id vl = activeVectorLayerId layers0) vectorLayers' = None
                  then layer_id (hd vectorLayers')
                  else activeVectorLayerId layers0)
           in (h', state\<lparr>layers := layers0\<lparr>vectorLayers := vectorLayers',
                                             selectedLayerIds := [],
                                             collapsedLayerIds := collapsedLayerIds',
                                             hiddenLayerIds := hiddenLayerIds',
                                             activeVectorLayerId := activeVectorLayerId'\<rparr>\<rparr>))"

definition DELETE_SELECTED_MODELS :: "Env \<Rightarrow> Heap \<Rightarrow> State \<Rightarrow> Heap \<times> State" where
  "DELETE_SELECTED_MODELS env h state =
     (let (h1, state1) = deleteSelectedAnimations env h state;
          (h2, state2) = deleteSelectedBlocks h1 state1
      in deleteSelectedLayers env h2 state2)"

subsection \<open>The reducer (lines 119-454)\<close>

datatype Action =
    NewWorkspace
  | AddAnimations "ref list"
  | SelectAnimation ident bool
  | ActivateAnimation ident
  | ReplaceAnimations "ref list"
  | AddBlock Layer string "Value option" "Value option"
  | SelectBlock ident bool
  | ReplaceBlocks "ref list"
  | UpdatePathBlock ident CanvasType Path
  | AddLayers "Layer list"
  | SelectLayer ident bool bool
  | ClearLayerSelections
  | ToggleLayerExpansion ident bool
  | ToggleLayerVisibility ident
  | ReplaceLayer Layer
  | DeleteSelectedModels
  | OtherAction

text \<open>
  Returning \<open>state\<close> itself is returning the same value; the identity of the state object
  is not part of the model.
\<close>

fun reducer :: "Env \<Rightarrow> Heap \<Rightarrow> State \<Rightarrow> Action \<Rightarrow> error + Heap \<times> State" where
  "reducer env h state NewWorkspace = Inr (buildInitialState env h)"
| "reducer env h state (AddAnimations animations') = Inr (h, ADD_ANIMATIONS h state animations')"
| "reducer env h state (SelectAnimation animationId clearExisting) =
     Inr (h, selectAnimationId state animationId clearExisting)"
| "reducer env h state (ActivateAnimation animationId) =
     Inr (h, ACTIVATE_ANIMATION state animationId)"
| "reducer env h state (ReplaceAnimations animations') =
     Inr (h, REPLACE_ANIMATIONS h state animations')"
| "reducer env h state (AddBlock layer propertyName fromValue toValue) =
     ADD_BLOCK env h state layer propertyName fromValue toValue"
| "reducer env h state (SelectBlock blockId clearExisting) =
     Inr (h, selectBlockId state blockId clearExisting)"
| "reducer env h state (ReplaceBlocks blocks') = REPLACE_BLOCKS h state blocks'"
| "reducer env h state (UpdatePathBlock blockId source path) =
     updatePathAnimationBlock env h state blockId source path"
| "reducer env h state (AddLayers layers') = map_sum id (Pair h) (ADD_LAYERS state layers')"
| "reducer env h state (SelectLayer layerId shouldToggle clearExisting) =
     map_sum id (Pair h) (selectLayerId state layerId shouldToggle clearExisting)"
| "reducer env h state ClearLayerSelections = Inr (h, CLEAR_LAYER_SELECTIONS state)"
| "reducer env h state (ToggleLayerExpansion layerId recursive) =
     Inr (h, TOGGLE_LAYER_EXPANSION state layerId recursive)"
| "reducer env h state (ToggleLayerVisibility layerId) =
     Inr (h, TOGGLE_LAYER_VISIBILITY state layerId)"
| "reducer env h state (ReplaceLayer layer) = map_sum id (Pair h) (REPLACE_LAYER state layer)"
| "reducer env h state DeleteSelectedModels = Inr (DELETE_SELECTED_MODELS env h state)"
| "reducer env h state OtherAction = Inr (h, state)"

text \<open>
  The states that a sequence of actions reaches from the initial state. Between two
  actions the caller may have created the objects of the next payload, so the heap of
  each step is arbitrary.
\<close>

inductive reachable :: "Env \<Rightarrow> State \<Rightarrow> bool" for env :: Env where
  initial: "buildInitialState env h = (h', s) \<Longrightarrow> reachable env s"
| step: "reachable env s \<Longrightarrow> reducer env h s a = Inr (h', s') \<Longrightarrow> reachable env s'"

subsection \<open>Predicates used in the properties\<close>

text \<open>At most one of the three selection sets is non-empty: two of them are empty.\<close>

definition atMostOneSelection :: "State \<Rightarrow> bool" where
  "atMostOneSelection s =
     ((selectedAnimationIds (timeline s) = [] \<and> selectedBlockIds (timeline s) = []) \<or>
      (selectedAnimationIds (timeline s) = [] \<and> selectedLayerIds (layers s) = []) \<or>
      (selectedBlockIds (timeline s) = [] \<and> selectedLayerIds (layers s) = []))"

definition selections :: "State \<Rightarrow> JsSet \<times> JsSet \<times> JsSet" where
  "selections s =
     (selectedAnimationIds (timeline s), selectedBlockIds (timeline s),
      selectedLayerIds (layers s))"

definition poolsNonEmpty :: "State \<Rightarrow> bool" where
  "poolsNonEmpty s = (animations (timeline s) \<noteq> [] \<and> vectorLayers (layers s) \<noteq> [])"

text \<open>The number of commands of each subpath of a path.\<close>

definition commandCounts :: "Path \<Rightarrow> nat list" where
  "commandCounts p = map (\<lambda>sp. length (getCommands sp)) p"

text \<open>
  What the spec says of \<open>autoConvert\<close>: it changes command types and never the number of
  subpaths or of commands.
\<close>

definition keepsCommandCounts :: "Env \<Rightarrow> bool" where
  "keepsCommandCounts env =
     (\<forall>subIdx from to.
        commandCounts (fst (autoConvert env subIdx from to)) = commandCounts from \<and>
        commandCounts (snd (autoConvert env subIdx from to)) = commandCounts to)"

text \<open>
  The collapsing subpath that pairs with subpath \<open>i\<close> of the path with more subpaths: at
  the pole of that subpath, with as many commands.
\<close>

definition collapsingSubPathFor :: "Env \<Rightarrow> Path \<Rightarrow> nat \<Rightarrow> SubPath" where
  "collapsingSubPathFor env larger i =
     \<lparr>getCommands = replicate (length (getCommands (larger ! i)))
                       (collapsingCommand (getPoleOfInaccessibility env larger i)),
      isCollapsing = True\<rparr>"

definition noPromotions :: "SubPath \<Rightarrow> bool" where
  "noPromotions sp = list_all (\<lambda>c. promotedTo c = None) (getCommands sp)"

definition unconvertAll :: "SubPath \<Rightarrow> SubPath" where
  "unconvertAll sp = sp\<lparr>getCommands := map unconvertCommand (getCommands sp)\<rparr>"






subsection \<open>Example inputs\<close>

text \<open>
  A collaborator instance for the examples: poles at the origin, an \<open>autoConvert\<close> that finds
  nothing to convert, ids \<open>u\<close>, \<open>uu\<close>, \<open>uuu\<close>, ..., and built-in values with the properties
  they inherit from \<open>Object.prototype\<close> and no others.
\<close>

definition env0 :: Env where
  "env0 = \<lparr>getPoleOfInaccessibility = (\<lambda>p i. (0, 0)), autoConvert = (\<lambda>i a b. (a, b)),
           uniqueId = (\<lambda>n. replicate (Suc n) (CHR ''u'')), defaultDuration = num 300,
           builtinProperty =
             (\<lambda>a key. if key = ''__proto__''
                      then (if a = ''__proto__'' then None else Some (JsFunction 0))
                      else Object_prototype key)\<rparr>"

text \<open>A block of the pair \<open>(L, P)\<close> in animation \<open>A\<close>.\<close>

definition blockLP :: "ident \<Rightarrow> int \<Rightarrow> int \<Rightarrow> AnimationBlock" where
  "blockLP i s e =
     \<lparr>block_id = i, block_kind = NumberAnimationBlock, block_layerId = ''L'',
      block_animationId = ''A'', block_propertyName = ''P'', block_startTime = num s,
      block_endTime = num e, block_fromValue = None, block_toValue = None\<rparr>"

definition layerL :: Layer where
  "layerL = Layer ''L'' False [(''P'', NumberProperty)] []"

text \<open>One animation \<open>A\<close> of duration 1000 with the single block \<open>[100, 300)\<close> for \<open>(L, P)\<close>.\<close>

definition heap5 :: Heap where
  "heap5 = \<lparr>animationAt = (\<lambda>r. \<lparr>anim_id = ''A'', duration = num 1000, blocks = [0]\<rparr>),
            blockAt = (\<lambda>r. blockLP ''b0'' 100 300), nextRef = 1, nextId = 0\<rparr>"

definition state5 :: State where
  "state5 =
     \<lparr>layers = \<lparr>vectorLayers = [Layer ''V'' True [] [layerL]], activeVectorLayerId = ''V'',
                 selectedLayerIds = [], collapsedLayerIds = [], hiddenLayerIds = []\<rparr>,
      timeline = \<lparr>animations = [0], selectedAnimationIds = [], activeAnimationId = ''A'',
                   selectedBlockIds = []\<rparr>,
      state_animations = None\<rparr>"

text \<open>The same state with the animation \<open>a\<close> selected, and with the block \<open>b0\<close> selected.\<close>

definition state3 :: State where
  "state3 = state5\<lparr>timeline := (timeline state5)\<lparr>selectedAnimationIds := [''a'']\<rparr>\<rparr>"

definition state9 :: State where
  "state9 = state5\<lparr>timeline := (timeline state5)\<lparr>selectedBlockIds := [''b0'']\<rparr>\<rparr>"

text \<open>Animations \<open>A\<close> and \<open>B\<close>, with \<open>A\<close> active and selected.\<close>

definition heap8 :: Heap where
  "heap8 =
     \<lparr>animationAt = (\<lambda>r. if r = 0 then \<lparr>anim_id = ''A'', duration = num 1000, blocks = []\<rparr>
                           else \<lparr>anim_id = ''B'', duration = num 1000, blocks = []\<rparr>),
      blockAt = (\<lambda>r. blockLP ''b0'' 100 300), nextRef = 2, nextId = 0\<rparr>"

definition state8 :: State where
  "state8 =
     \<lparr>layers = \<lparr>vectorLayers = [Layer ''V'' True [] []], activeVectorLayerId = ''V'',
                 selectedLayerIds = [], collapsedLayerIds = [], hiddenLayerIds = []\<rparr>,
      timeline = \<lparr>animations = [0, 1], selectedAnimationIds = [''A''],
                   activeAnimationId = ''A'', selectedBlockIds = []\<rparr>,
      state_animations = None\<rparr>"

text \<open>Animation \<open>A\<close> with the overlapping blocks \<open>[0, 500)\<close> and \<open>[100, 200)\<close> for \<open>(L, P)\<close>.\<close>

definition heap10 :: Heap where
  "heap10 =
     \<lparr>animationAt = (\<lambda>r. \<lparr>anim_id = ''A'', duration = num 1000, blocks = [0, 1]\<rparr>),
      blockAt = (\<lambda>r. if r = 0 then blockLP ''b0'' 0 500 else blockLP ''b1'' 100 200),
      nextRef = 2, nextId = 0\<rparr>"

text \<open>
  Animation \<open>A\<close> of duration \<open>2 ^ 56\<close> with the single block \<open>[0, 2 ^ 55)\<close> for \<open>(L, P)\<close>.
\<close>

definition heapLarge :: Heap where
  "heapLarge =
     \<lparr>animationAt =
        (\<lambda>r. \<lparr>anim_id = ''A'', duration = num 72057594037927936, blocks = [0]\<rparr>),
      blockAt = (\<lambda>r. blockLP ''b0'' 0 36028797018963968), nextRef = 1, nextId = 0\<rparr>"

text \<open>A subpath of \<open>n\<close> plain commands, and a subpath whose only command is promoted.\<close>

definition plainSubPath :: "nat \<Rightarrow> SubPath" where
  "plainSubPath n =
     \<lparr>getCommands = replicate n \<lparr>svgChar = CHR ''L'', promotedTo = None, endPoint = (1, 1)\<rparr>,
      isCollapsing = False\<rparr>"

definition promotedSubPath :: SubPath where
  "promotedSubPath =
     \<lparr>getCommands = [\<lparr>svgChar = CHR ''L'', promotedTo = Some (CHR ''C''), endPoint = (1, 1)\<rparr>],
      isCollapsing = False\<rparr>"

text \<open>The collapsing subpath of 4 commands at the origin.\<close>

definition collapsing4 :: SubPath where
  "collapsing4 = \<lparr>getCommands = replicate 4 (collapsingCommand (0, 0)), isCollapsing = True\<rparr>"

text \<open>A path block \<open>b0\<close> of animation \<open>A\<close> with the given endpoints.\<close>

definition pathBlock :: "Path \<Rightarrow> Path \<Rightarrow> AnimationBlock" where
  "pathBlock from to =
     \<lparr>block_id = ''b0'', block_kind = PathAnimationBlock, block_layerId = ''L'',
      block_animationId = ''A'', block_propertyName = ''pathData'', block_startTime = num 0,
      block_endTime = num 100, block_fromValue = Some (PathValue from),
      block_toValue = Some (PathValue to)\<rparr>"

definition pathHeap :: "Path \<Rightarrow> Path \<Rightarrow> Heap" where
  "pathHeap from to =
     \<lparr>animationAt = (\<lambda>r. \<lparr>anim_id = ''A'', duration = num 1000, blocks = [0]\<rparr>),
      blockAt = (\<lambda>r. pathBlock from to), nextRef = 1, nextId = 0\<rparr>"

text \<open>An empty heap, and the initial state built on it.\<close>

definition heap0 :: Heap where
  "heap0 =
     \<lparr>animationAt = (\<lambda>r. \<lparr>anim_id = [], duration = num 0, blocks = []\<rparr>),
      blockAt = (\<lambda>r. blockLP [] 0 0), nextRef = 0, nextId = 0\<rparr>"

definition initialState :: State where
  "initialState = snd (buildInitialState env0 heap0)"

definition initialHeap :: Heap where
  "initialHeap = fst (buildInitialState env0 heap0)"

section \<open>Properties\<close>

lemmas fixture_defs =
  env0_def blockLP_def layerL_def heap5_def state5_def state3_def state9_def heap8_def
  state8_def heap10_def heapLarge_def plainSubPath_def promotedSubPath_def pathBlock_def pathHeap_def
  heap0_def initialState_def collapsing4_def initialHeap_def
lemmas set_defs = Set_add_def Set_has_def Set_delete_def Set_size_def isEqual_def
lemmas gap_defs =
  findGap_def pickGap_def rankGaps_def buildGaps_def placeBlock_def newBlockDuration_def
  activeTime_def sortWith_def
lemmas lookup_defs =
  getOrderedBlocksByPropertyByLayer_def blockNeighborsOf_def orEmptyArray_def getProperty_def
  Object_prototype_def
lemmas heap_defs =
  new_AnimationBlock_def new_Animation_def new_VectorLayer_def clone_Animation_def set_blocks_def

subsection \<open>Numbers with integer values\<close>

text \<open>An integer of magnitude below \<open>2 ^ 53\<close> is a double: rounding leaves it as it is.\<close>

lemma roundHalfEven_of_int: "roundHalfEven (of_int m) = m"
  by (simp add: roundHalfEven_def)

lemma bitlen_1: "bitlen 1 = 1"
  by (simp add: bitlen_alt_def)

lemma floorLog2_of_int:
  assumes "0 < k"
  shows "floorLog2 (of_int k) = bitlen k - 1"
proof -
  have "(2::int) ^ nat (bitlen k - 1) \<le> k"
    using bitlen_bounds [OF assms] by simp
  then have "(of_int ((2::int) ^ nat (bitlen k - 1)) :: rat) \<le> of_int k"
    by (simp only: of_int_le_iff)
  then have "pow2 (bitlen k - 1) \<le> of_int k"
    using assms by (simp add: pow2_def bitlen_alt_def)
  then show ?thesis
    by (simp add: floorLog2_def bitlen_1)
qed

lemma bitlen_le_53:
  assumes "0 < k" "k < 2 ^ 53"
  shows "bitlen k \<le> 53"
proof -
  have "floorlog 2 (nat k) \<le> 53"
    using assms by (simp add: floorlog_le_iff nat_less_iff)
  then show ?thesis
    by (simp add: bitlen_def)
qed

lemma roundMagnitude_of_int:
  assumes "0 < k" "k < 2 ^ 53"
  shows "roundMagnitude (of_int k) = of_int k"
proof -
  define n where "n = nat (53 - bitlen k)"
  have b: "bitlen k \<le> 53" "0 \<le> bitlen k"
    using bitlen_le_53 [OF assms] bitlen_nonneg by auto
  have q: "max (floorLog2 (of_int k) - 52) (- 1074) = - int n"
    using b by (simp add: floorLog2_of_int [OF assms(1)] n_def)
  have p: "pow2 (- int n) = 1 / 2 ^ n"
    by (simp add: pow2_def)
  have "(of_int k :: rat) / pow2 (- int n) = of_int (k * 2 ^ n)"
    by (simp add: p)
  then have r: "roundHalfEven ((of_int k :: rat) / pow2 (- int n)) = k * 2 ^ n"
    by (simp only: roundHalfEven_of_int)
  have v: "(of_int (k * 2 ^ n) :: rat) * pow2 (- int n) = of_int k"
    by (simp add: p)
  show ?thesis
    unfolding roundMagnitude_def Let_def q r v ..
qed

lemma roundToDouble_of_int:
  assumes "\<bar>k\<bar> < 2 ^ 53"
  shows "roundToDouble (of_int k) = Finite (of_int k)"
proof (cases "k = 0")
  case True
  then show ?thesis by (simp add: roundToDouble_def)
next
  case False
  then have m: "0 < \<bar>k\<bar>" by simp
  have "(of_int \<bar>k\<bar> :: rat) < of_int (2 ^ 53)"
    using assms by (simp only: of_int_less_iff)
  also have "\<dots> \<le> pow2 1024"
    by (simp add: pow2_def)
  finally have lt: "\<not> pow2 1024 \<le> (of_int \<bar>k\<bar> :: rat)"
    by simp
  have a: "\<bar>of_int k :: rat\<bar> = of_int \<bar>k\<bar>"
    by simp
  show ?thesis
    unfolding roundToDouble_def Let_def a roundMagnitude_of_int [OF m assms]
    using lt False by (simp add: abs_if)
qed

lemma js_add_num: "\<bar>a + b\<bar> < 9007199254740992 \<Longrightarrow> js_add (num a) (num b) = num (a + b)"
  using roundToDouble_of_int [of "a + b"] by (simp add: num_def)

lemma js_sub_num: "\<bar>a - b\<bar> < 9007199254740992 \<Longrightarrow> js_sub (num a) (num b) = num (a - b)"
  using roundToDouble_of_int [of "a - b"] by (simp add: num_def js_sub_def)

lemma js_cmp_num:
  "js_lt (num a) (num b) = (a < b)" "js_gt (num a) (num b) = (b < a)"
  "js_le (num a) (num b) = (a \<le> b)"
  by (auto simp: num_def js_gt_def js_le_def)

lemma Math_num:
  "Math_abs (num a) = num \<bar>a\<bar>" "Math_min (num a) (num b) = num (min a b)"
  "Math_max (num a) (num b) = num (max a b)"
  by (auto simp: num_def Math_min_def Math_max_def)

lemma num_eq: "(num a = num b) = (a = b)" "num a \<noteq> NaN" "NaN \<noteq> num a"
  by (simp_all add: num_def)

lemmas num_simps = js_add_num js_sub_num js_cmp_num Math_num num_eq



subsection \<open>Arrays and the heap\<close>

lemma findIndex_Some: "findIndex P xs = Some i \<Longrightarrow> i < length xs \<and> P (xs ! i)"
  by (induction xs arbitrary: i) (auto split: if_splits)

lemma length_appendBlockToClones:
  "appendBlockToClones h i b as = (as', h') \<Longrightarrow> length as' = length as"
  by (induction as arbitrary: h as' h') (auto simp: Let_def split: prod.splits if_splits)

lemma length_cloneAnimationsIn:
  "cloneAnimationsIn h ks as = (as', h') \<Longrightarrow> length as' = length as"
  by (induction as arbitrary: h as' h') (auto simp: Let_def split: prod.splits if_splits)

lemma length_removeSelectedBlocks:
  "removeSelectedBlocks h sel as = (as', h') \<Longrightarrow> length as' = length as"
  by (induction as arbitrary: h as' h') (auto simp: Let_def split: prod.splits if_splits)

lemma getBlockPathFn_set_same:
  "getBlockPathFn (blockAt (setBlockPathFn h b t p) b) t = p"
  by (simp add: getBlockPathFn_def setBlockPathFn_def)

lemma getBlockPathFn_set_other:
  "t \<noteq> t' \<Longrightarrow> getBlockPathFn (blockAt (setBlockPathFn h b t p) b) t' = getBlockPathFn (blockAt h b) t'"
  by (cases t; cases t') (simp_all add: getBlockPathFn_def setBlockPathFn_def)

lemma block_id_setBlockPathFn:
  "block_id (blockAt (setBlockPathFn h b t p) b') = block_id (blockAt h b')"
  by (simp add: setBlockPathFn_def)

lemma animationAt_setBlockPathFn:
  "animationAt (setBlockPathFn h b t p) = animationAt h"
  by (simp add: setBlockPathFn_def)

lemma blockAt_set_blocks: "blockAt (set_blocks h a bs) = blockAt h"
  by (simp add: set_blocks_def)

lemma animationAt_set_blocks:
  "animationAt (set_blocks h a bs) a = (animationAt h a)\<lparr>blocks := bs\<rparr>"
  by (simp add: set_blocks_def)

subsection \<open>The example inputs evaluated\<close>

lemma env0_simps:
  "uniqueId env0 n = replicate (Suc n) (CHR ''u'')" "defaultDuration env0 = num 300"
  "getPoleOfInaccessibility env0 p i = (0, 0)" "autoConvert env0 i a b = (a, b)"
  by (simp_all add: env0_def)

lemma initialState_eq:
  "buildInitialState env0 heap0 =
     (\<lparr>animationAt = (animationAt heap0)(0 := \<lparr>anim_id = ''uu'', duration = num 300, blocks = []\<rparr>),
       blockAt = blockAt heap0, nextRef = 1, nextId = 2\<rparr>,
      \<lparr>layers = \<lparr>vectorLayers = [Layer ''u'' True [] []], activeVectorLayerId = ''u'',
                  selectedLayerIds = [], collapsedLayerIds = [], hiddenLayerIds = []\<rparr>,
       timeline = \<lparr>animations = [0], selectedAnimationIds = [], activeAnimationId = ''uu'',
                    selectedBlockIds = []\<rparr>,
       state_animations = None\<rparr>)"
  by (simp add: buildInitialState_def new_VectorLayer_def new_Animation_def env0_def heap0_def
        Let_def)

lemma reachable_initialState: "reachable env0 initialState"
  unfolding initialState_def
  by (rule reachable.initial[of env0 heap0 "fst (buildInitialState env0 heap0)"]) simp

lemma initialState_val:
  "initialState =
     \<lparr>layers = \<lparr>vectorLayers = [Layer ''u'' True [] []], activeVectorLayerId = ''u'',
                 selectedLayerIds = [], collapsedLayerIds = [], hiddenLayerIds = []\<rparr>,
      timeline = \<lparr>animations = [0], selectedAnimationIds = [], activeAnimationId = ''uu'',
                   selectedBlockIds = []\<rparr>,
      state_animations = None\<rparr>"
  by (simp add: initialState_def initialState_eq)

lemma initialHeap_val:
  "initialHeap =
     \<lparr>animationAt = (animationAt heap0)(0 := \<lparr>anim_id = ''uu'', duration = num 300, blocks = []\<rparr>),
      blockAt = blockAt heap0, nextRef = 1, nextId = 2\<rparr>"
  by (simp add: initialHeap_def initialState_eq)

lemma keepsCommandCounts_env0: "keepsCommandCounts env0"
  by (simp add: keepsCommandCounts_def env0_simps)

lemma unconvert_plain: "unconvertSubPath 0 (plainSubPath n # ps) = plainSubPath n # ps"
  by (simp add: unconvertSubPath_def plainSubPath_def unconvertCommand_def)

lemma normalize_plain: "normalizePath [plainSubPath n] = [plainSubPath n]"
  by (simp add: normalizePath_def unconvert_plain deleteCollapsingSubPaths_def)
     (simp add: plainSubPath_def)

lemma delete_plain2:
  "deleteCollapsingSubPaths [plainSubPath n, plainSubPath k] = [plainSubPath n, plainSubPath k]"
  "deleteCollapsingSubPaths [plainSubPath n] = [plainSubPath n]"
  by (simp_all add: deleteCollapsingSubPaths_def plainSubPath_def)

lemma length_plain: "length (getCommands (plainSubPath n)) = n"
  by (simp add: plainSubPath_def)

lemma pad_example:
  "padSubPaths env0 [plainSubPath 4] [plainSubPath 4, plainSubPath 4]
     = ([plainSubPath 4, collapsing4], [plainSubPath 4, plainSubPath 4])"
  by (simp add: padSubPaths_def Let_def addCollapsingSubPath_def env0_simps length_plain
        collapsing4_def)

lemma length_collapsing4: "length (getCommands collapsing4) = 4"
  by (simp add: collapsing4_def)

lemma makeCompatible_example:
  "makeCompatible env0 [plainSubPath 4] [plainSubPath 4, plainSubPath 4]
     = Inr ([plainSubPath 4, collapsing4], [plainSubPath 4, plainSubPath 4])"
  by (simp add: makeCompatible_def delete_plain2 pad_example Let_def upt_rec length_plain
        length_collapsing4 env0_simps unconvert_plain)
     (simp add: unconvertSubPath_def plainSubPath_def unconvertCommand_def)

lemma reconcile_example:
  "reconcile env0 [plainSubPath 4] (Some (PathValue [plainSubPath 4, plainSubPath 4]))
     = Inr (Some (PathValue [plainSubPath 4, collapsing4]),
            Some (PathValue [plainSubPath 4, plainSubPath 4]))"
  by (simp add: reconcile_def normalize_plain makeCompatible_example)

lemma pathHeap_simps:
  "animationAt (pathHeap from to) r = \<lparr>anim_id = ''A'', duration = num 1000, blocks = [0]\<rparr>"
  "blockAt (pathHeap from to) r = pathBlock from to"
  by (simp_all add: pathHeap_def)

lemma state5_timeline:
  "animations (timeline state5) = [0]" "activeAnimationId (timeline state5) = ''A''"
  by (simp_all add: state5_def)

lemma pathBlock_simps:
  "block_id (pathBlock from to) = ''b0''"
  "getBlockPathFn (pathBlock from to) Start = Some (PathValue from)"
  "getBlockPathFn (pathBlock from to) End = Some (PathValue to)"
  by (simp_all add: pathBlock_def getBlockPathFn_def)

subsection \<open>Selection exclusivity\<close>

lemma atMostOne_selections:
  "selections s' = selections s \<Longrightarrow> atMostOneSelection s' = atMostOneSelection s"
  by (simp add: selections_def atMostOneSelection_def)

lemma Set_add_not_Nil [simp]: "Set_add x s \<noteq> []"
  by (auto simp add: Set_add_def)

lemma selectAnimationId_exclusive:
  "atMostOneSelection s \<Longrightarrow> atMostOneSelection (selectAnimationId s i c)"
  by (auto simp add: selectAnimationId_def atMostOneSelection_def Let_def Set_size_def)

lemma selectBlockId_exclusive:
  "atMostOneSelection s \<Longrightarrow> atMostOneSelection (selectBlockId s i c)"
  by (auto simp add: selectBlockId_def atMostOneSelection_def Let_def Set_size_def)

lemma selectLayerId_exclusive:
  "selectLayerId s i t c = Inr s' \<Longrightarrow> atMostOneSelection s'"
  by (auto simp add: selectLayerId_def atMostOneSelection_def Let_def Set_size_def
       split: option.splits if_splits)

lemma ADD_ANIMATIONS_selections: "selections (ADD_ANIMATIONS h s as) = selections s"
  by (simp add: ADD_ANIMATIONS_def selections_def Let_def)

lemma ACTIVATE_ANIMATION_selections: "selections (ACTIVATE_ANIMATION s i) = selections s"
  by (simp add: ACTIVATE_ANIMATION_def selections_def Let_def)

lemma REPLACE_ANIMATIONS_selections: "selections (REPLACE_ANIMATIONS h s as) = selections s"
  by (simp add: REPLACE_ANIMATIONS_def selections_def Let_def)

lemma ADD_BLOCK_exclusive:
  "ADD_BLOCK env h s l p f t = Inr (h', s') \<Longrightarrow> atMostOneSelection s \<Longrightarrow> atMostOneSelection s'"
  by (auto simp add: ADD_BLOCK_def atMostOneSelection_def Let_def selectBlockId_def Set_size_def
       split: option.splits prod.splits if_splits sum.splits)

lemma REPLACE_BLOCKS_selections:
  "REPLACE_BLOCKS h s bs = Inr (h', s') \<Longrightarrow> selections s' = selections s"
  by (auto simp add: REPLACE_BLOCKS_def selections_def Let_def split: if_splits prod.splits sum.splits)

lemma updatePathAnimationBlock_selections:
  "updatePathAnimationBlock env h s b src p = Inr (h', s') \<Longrightarrow> selections s' = selections s"
  by (auto simp add: updatePathAnimationBlock_def selections_def Let_def
       split: option.splits sum.splits prod.splits)

lemma ADD_LAYERS_selections: "ADD_LAYERS s ls = Inr s' \<Longrightarrow> selections s' = selections s"
  by (auto simp add: ADD_LAYERS_def selections_def Let_def split: option.splits if_splits)

lemma CLEAR_LAYER_SELECTIONS_exclusive:
  "atMostOneSelection s \<Longrightarrow> atMostOneSelection (CLEAR_LAYER_SELECTIONS s)"
  by (auto simp add: CLEAR_LAYER_SELECTIONS_def atMostOneSelection_def Let_def)

lemma TOGGLE_LAYER_EXPANSION_selections:
  "selections (TOGGLE_LAYER_EXPANSION s i r) = selections s"
  by (simp add: TOGGLE_LAYER_EXPANSION_def selections_def Let_def)

lemma TOGGLE_LAYER_VISIBILITY_selections:
  "selections (TOGGLE_LAYER_VISIBILITY s i) = selections s"
  by (simp add: TOGGLE_LAYER_VISIBILITY_def selections_def Let_def)

lemma REPLACE_LAYER_selections: "REPLACE_LAYER s l = Inr s' \<Longrightarrow> selections s' = selections s"
  by (auto simp add: REPLACE_LAYER_def selections_def Let_def split: option.splits if_splits sum.splits)

lemma deleteSelectedAnimations_selections:
  "deleteSelectedAnimations env h s = (h', s') \<Longrightarrow>
   selections s' = ([], selectedBlockIds (timeline s), selectedLayerIds (layers s))"
  by (auto simp add: deleteSelectedAnimations_def selections_def Let_def Set_size_def
      split: if_splits prod.splits)

lemma deleteSelectedBlocks_selections:
  "deleteSelectedBlocks h s = (h', s') \<Longrightarrow>
   selections s' = (selectedAnimationIds (timeline s), [], selectedLayerIds (layers s))"
  by (auto simp add: deleteSelectedBlocks_def selections_def Let_def Set_size_def
      split: if_splits prod.splits)

lemma deleteSelectedLayers_selections:
  "deleteSelectedLayers env h s = (h', s') \<Longrightarrow>
   selections s' = (selectedAnimationIds (timeline s), selectedBlockIds (timeline s), [])"
  by (auto simp add: deleteSelectedLayers_def selections_def Let_def Set_size_def
      split: if_splits prod.splits)

lemma DELETE_SELECTED_MODELS_selections:
  "DELETE_SELECTED_MODELS env h s = (h', s') \<Longrightarrow> selections s' = ([], [], [])"
  by (auto simp add: DELETE_SELECTED_MODELS_def selections_def split: prod.splits
      dest!: deleteSelectedAnimations_selections deleteSelectedBlocks_selections deleteSelectedLayers_selections)

lemma buildInitialState_selections:
  "buildInitialState env h = (h', s') \<Longrightarrow> selections s' = ([], [], [])"
  by (auto simp add: buildInitialState_def selections_def Let_def split: prod.splits)

lemma empty_selections_exclusive: "selections s = ([], [], []) \<Longrightarrow> atMostOneSelection s"
  by (simp add: selections_def atMostOneSelection_def)

lemma reducer_exclusive:
  "atMostOneSelection s \<Longrightarrow> reducer env h s a = Inr (h', s') \<Longrightarrow> atMostOneSelection s'"
proof (cases a)
  case NewWorkspace
  assume "reducer env h s a = Inr (h', s')"
  with NewWorkspace show ?thesis
    by (auto dest!: buildInitialState_selections intro: empty_selections_exclusive)
next
  case (AddBlock l p f t)
  assume "atMostOneSelection s" "reducer env h s a = Inr (h', s')"
  with AddBlock show ?thesis by (auto dest: ADD_BLOCK_exclusive)
next
  case (SelectLayer i t c)
  assume "reducer env h s a = Inr (h', s')"
  with SelectLayer show ?thesis
    by (cases "selectLayerId s i t c") (auto dest: selectLayerId_exclusive)
next
  case DeleteSelectedModels
  assume "reducer env h s a = Inr (h', s')"
  with DeleteSelectedModels show ?thesis
    by (auto dest!: DELETE_SELECTED_MODELS_selections intro: empty_selections_exclusive)
next
  case (ReplaceBlocks bs)
  assume "atMostOneSelection s" "reducer env h s a = Inr (h', s')"
  with ReplaceBlocks show ?thesis
    by (auto dest!: REPLACE_BLOCKS_selections atMostOne_selections)
next
  case (UpdatePathBlock b src p)
  assume "atMostOneSelection s" "reducer env h s a = Inr (h', s')"
  with UpdatePathBlock show ?thesis
    by (auto dest!: updatePathAnimationBlock_selections atMostOne_selections)
next
  case (AddLayers ls)
  assume "atMostOneSelection s" "reducer env h s a = Inr (h', s')"
  with AddLayers show ?thesis
    by (cases "ADD_LAYERS s ls") (auto dest!: ADD_LAYERS_selections atMostOne_selections)
next
  case (ReplaceLayer l)
  assume "atMostOneSelection s" "reducer env h s a = Inr (h', s')"
  with ReplaceLayer show ?thesis
    by (cases "REPLACE_LAYER s l") (auto dest!: REPLACE_LAYER_selections atMostOne_selections)
qed (auto simp: selectAnimationId_exclusive selectBlockId_exclusive CLEAR_LAYER_SELECTIONS_exclusive
      atMostOne_selections[OF ADD_ANIMATIONS_selections]
      atMostOne_selections[OF ACTIVATE_ANIMATION_selections]
      atMostOne_selections[OF REPLACE_ANIMATIONS_selections]
      atMostOne_selections[OF TOGGLE_LAYER_EXPANSION_selections]
      atMostOne_selections[OF TOGGLE_LAYER_VISIBILITY_selections])

lemma reachable_exclusive: "reachable env s \<Longrightarrow> atMostOneSelection s"
proof (induction rule: reachable.induct)
  case (initial h h' s)
  then show ?case
    by (auto dest!: buildInitialState_selections intro: empty_selections_exclusive)
next
  case (step s h a h' s')
  then show ?case by (blast intro: reducer_exclusive)
qed

text \<open>
  C1: in every state that a sequence of actions reaches from the initial state, at most one
  of \<open>selectedAnimationIds\<close>, \<open>selectedBlockIds\<close> and \<open>selectedLayerIds\<close> is non-empty.
\<close>

theorem reachable_selection_exclusive: "reachable env s \<Longrightarrow> atMostOneSelection s"
  by (rule reachable_exclusive)

theorem reachable_selection_exclusive_witness:
  "reachable env0 (selectBlockId initialState ''b'' True) \<and>
   selectedBlockIds (timeline (selectBlockId initialState ''b'' True)) = [''b''] \<and>
   atMostOneSelection (selectBlockId initialState ''b'' True)"
proof -
  have r: "reachable env0 (selectBlockId initialState ''b'' True)"
    by (rule reachable.step[OF reachable_initialState, of heap0 "SelectBlock ''b'' True" heap0])
       simp
  have "selectedBlockIds (timeline (selectBlockId initialState ''b'' True)) = [''b'']"
    by (simp add: initialState_def initialState_eq selectBlockId_def set_defs Let_def)
  with r reachable_selection_exclusive[OF r] show ?thesis by simp
qed

subsection \<open>Updating a path block\<close>

text \<open>
  C2: an UpdatePathBlock action that names a block of the active animation either raises,
  exactly when reconciling the two paths raises, or returns a state whose timeline holds
  that block, in that animation, with the edited endpoint and the opposite endpoint both
  set to the reconciled values. The block object that the timeline refers to is assigned
  in place; the timeline itself is the one of the input state.
\<close>

theorem UPDATE_PATH_BLOCK_writes_both_endpoints:
  assumes ai: "findIndex (\<lambda>a. anim_id (animationAt h a) = activeAnimationId (timeline s))
                 (animations (timeline s)) = Some ai"
    and bi: "findIndex (\<lambda>b. block_id (blockAt h b) = blockId)
                 (blocks (animationAt h (animations (timeline s) ! ai))) = Some bi"
  shows "(case reconcile env path
                 (getBlockPathFn
                    (blockAt h (blocks (animationAt h (animations (timeline s) ! ai)) ! bi))
                    (if source = Start then End else Start)) of
            Inl e \<Rightarrow> reducer env h s (UpdatePathBlock blockId source path) = Inl e
          | Inr (path', oppPath') \<Rightarrow>
              (\<exists>h' s'. reducer env h s (UpdatePathBlock blockId source path) = Inr (h', s') \<and>
                 timeline s' = timeline s \<and>
                 anim_id (animationAt h' (animations (timeline s') ! ai))
                   = activeAnimationId (timeline s') \<and>
                 block_id (blockAt h' (blocks (animationAt h' (animations (timeline s') ! ai)) ! bi))
                   = blockId \<and>
                 getBlockPathFn
                   (blockAt h' (blocks (animationAt h' (animations (timeline s') ! ai)) ! bi))
                   source = path' \<and>
                 getBlockPathFn
                   (blockAt h' (blocks (animationAt h' (animations (timeline s') ! ai)) ! bi))
                   (if source = Start then End else Start) = oppPath'))"
proof -
  let ?a = "animations (timeline s) ! ai"
  let ?bs = "blocks (animationAt h ?a)"
  let ?b = "?bs ! bi"
  let ?opp = "if source = Start then End else Start"
  from findIndex_Some[OF ai] have a_id: "anim_id (animationAt h ?a) = activeAnimationId (timeline s)"
    by simp
  from findIndex_Some[OF bi] have b_lt: "bi < length ?bs" and b_id: "block_id (blockAt h ?b) = blockId"
    by simp_all
  show ?thesis
  proof (cases "reconcile env path (getBlockPathFn (blockAt h ?b) ?opp)")
    case (Inl e)
    then show ?thesis
      by (simp add: updatePathAnimationBlock_def ai bi Let_def)
  next
    case (Inr r)
    obtain p' o' where r: "r = (p', o')" by (cases r)
    let ?h1 = "setBlockPathFn h ?b source p'"
    let ?h2 = "setBlockPathFn ?h1 ?b ?opp o'"
    let ?h3 = "set_blocks ?h2 ?a (?bs[bi := ?b])"
    have red: "reducer env h s (UpdatePathBlock blockId source path)
        = Inr (?h3, s\<lparr>state_animations := Some ((animations (timeline s))[ai := ?a])\<rparr>)"
      using Inr r by (simp add: updatePathAnimationBlock_def ai bi Let_def)
    have bl: "blocks (animationAt ?h3 ?a) = ?bs"
      by (simp add: animationAt_set_blocks animationAt_setBlockPathFn)
    have an: "anim_id (animationAt ?h3 ?a) = activeAnimationId (timeline s)"
      by (simp add: animationAt_set_blocks animationAt_setBlockPathFn a_id)
    have bid: "block_id (blockAt ?h3 ?b) = blockId"
      by (simp add: blockAt_set_blocks block_id_setBlockPathFn b_id)
    have neq: "?opp \<noteq> source" by (cases source) simp_all
    have src: "getBlockPathFn (blockAt ?h3 ?b) source = p'"
      using neq by (simp add: blockAt_set_blocks getBlockPathFn_set_other getBlockPathFn_set_same)
    have opp: "getBlockPathFn (blockAt ?h3 ?b) ?opp = o'"
      by (simp only: blockAt_set_blocks getBlockPathFn_set_same)
    show ?thesis
      unfolding Inr r using red bl an bid src opp by simp
  qed
qed

theorem UPDATE_PATH_BLOCK_writes_both_endpoints_witness:
  "findIndex (\<lambda>a. anim_id (animationAt (pathHeap [plainSubPath 4]
                                 [plainSubPath 4, plainSubPath 4]) a)
                   = activeAnimationId (timeline state5))
     (animations (timeline state5)) = Some 0 \<and>
   findIndex (\<lambda>b. block_id (blockAt (pathHeap [plainSubPath 4]
                                 [plainSubPath 4, plainSubPath 4]) b) = ''b0'')
     (blocks (animationAt (pathHeap [plainSubPath 4] [plainSubPath 4, plainSubPath 4])
                (animations (timeline state5) ! 0))) = Some 0 \<and>
   (\<exists>h' s'.
      reducer env0 (pathHeap [plainSubPath 4] [plainSubPath 4, plainSubPath 4]) state5
        (UpdatePathBlock ''b0'' Start [plainSubPath 4]) = Inr (h', s') \<and>
      timeline s' = timeline state5 \<and>
      block_id (blockAt h' (blocks (animationAt h' (animations (timeline s') ! 0)) ! 0)) = ''b0'' \<and>
      block_fromValue (blockAt h' (blocks (animationAt h' (animations (timeline s') ! 0)) ! 0))
        = Some (PathValue [plainSubPath 4, collapsing4]) \<and>
      block_toValue (blockAt h' (blocks (animationAt h' (animations (timeline s') ! 0)) ! 0))
        = Some (PathValue [plainSubPath 4, plainSubPath 4]))"
proof -
  let ?h = "pathHeap [plainSubPath 4] [plainSubPath 4, plainSubPath 4]"
  have ai: "findIndex (\<lambda>a. anim_id (animationAt ?h a) = activeAnimationId (timeline state5))
              (animations (timeline state5)) = Some 0"
    by (simp add: pathHeap_simps state5_timeline)
  have bi: "findIndex (\<lambda>b. block_id (blockAt ?h b) = ''b0'')
              (blocks (animationAt ?h (animations (timeline state5) ! 0))) = Some 0"
    by (simp add: pathHeap_simps pathBlock_simps)
  from UPDATE_PATH_BLOCK_writes_both_endpoints[OF ai bi,
      where env = env0 and path = "[plainSubPath 4]" and source = Start]
  have "\<exists>h' s'.
      reducer env0 ?h state5 (UpdatePathBlock ''b0'' Start [plainSubPath 4]) = Inr (h', s') \<and>
      timeline s' = timeline state5 \<and>
      block_id (blockAt h' (blocks (animationAt h' (animations (timeline s') ! 0)) ! 0)) = ''b0'' \<and>
      getBlockPathFn (blockAt h' (blocks (animationAt h' (animations (timeline s') ! 0)) ! 0)) Start
        = Some (PathValue [plainSubPath 4, collapsing4]) \<and>
      getBlockPathFn (blockAt h' (blocks (animationAt h' (animations (timeline s') ! 0)) ! 0)) End
        = Some (PathValue [plainSubPath 4, plainSubPath 4])"
    by (simp add: pathHeap_simps pathBlock_simps state5_timeline reconcile_example) blast
  with ai bi show ?thesis by (simp add: getBlockPathFn_def)
qed

subsection \<open>Selecting an animation\<close>

text \<open>
  C3: selecting an animation should extend (or replace) the prior set of selected
  animations. \<open>selectAnimationId\<close> reads \<open>timeline.selectedBlockIds\<close> as the prior set
  (line 459): with animation \<open>a\<close> selected and no block selected, selecting animation \<open>b\<close>
  without \<open>clearExisting\<close> gives the selection \<open>{b}\<close>, not \<open>{a, b}\<close>.
\<close>

theorem selectAnimationId_forgets_prior_selection:
  "selectedAnimationIds (timeline state3) = [''a''] \<and>
   selectedBlockIds (timeline state3) = [] \<and>
   selectedAnimationIds (timeline (selectAnimationId state3 ''b'' False)) = [''b'']"
  by (simp add: selectAnimationId_def fixture_defs set_defs Let_def)

subsection \<open>Adding a block\<close>

text \<open>
  C4: a successful AddBlock should leave the new block as the only selected model. The
  reducer selects it in \<open>state\<close> and then overwrites the timeline of the result with one
  built from the timeline read before the selection (lines 283-287): with animation \<open>a\<close>
  selected, the new block \<open>u\<close> is in the active animation, no block is selected and
  animation \<open>a\<close> still is.
\<close>

theorem ADD_BLOCK_loses_selection:
  "selectedAnimationIds (timeline state3) = [''a''] \<and>
   (case reducer env0 heap5 state3 (AddBlock layerL ''P'' None None) of
      Inr (h', s') \<Rightarrow>
        map (\<lambda>b. block_id (blockAt h' b))
            (blocks (animationAt h' (hd (animations (timeline s'))))) = [''b0'', ''u''] \<and>
        selectedBlockIds (timeline s') = [] \<and>
        selectedAnimationIds (timeline s') = [''a'']
    | Inl e \<Rightarrow> False)"
  by (simp add: ADD_BLOCK_def fixture_defs lookup_defs gap_defs num_simps Let_def heap_defs
        selectBlockId_def set_defs)

text \<open>
  C5: in an animation of duration 1000 with the single block \<open>[100, 300)\<close> for \<open>(L, P)\<close>,
  the gaps are \<open>[0, 100)\<close> and \<open>[300, 1000)\<close>; only the second is wider than 100, at
  distance 300 from the cursor 0; the gap finder answers \<open>[300, 400)\<close>, and an AddBlock
  action for \<open>(L, P)\<close> appends a block with these times to the active animation.
\<close>

theorem gap_finder_example:
  "buildGaps [blockLP ''b0'' 100 300] (num 1000)
     = [\<lparr>gap_start = num 0, gap_end = num 100\<rparr>,
        \<lparr>gap_start = num 300, gap_end = num 1000\<rparr>] \<and>
   rankGaps (buildGaps [blockLP ''b0'' 100 300] (num 1000))
     = [\<lparr>gap_start = num 300, gap_end = num 1000, dist = num 300\<rparr>] \<and>
   placeBlock \<lparr>gap_start = num 300, gap_end = num 1000, dist = num 300\<rparr>
     = (num 300, num 400) \<and>
   findGap [blockLP ''b0'' 100 300] (num 1000) = Some (num 300, num 400) \<and>
   (case reducer env0 heap5 state5 (AddBlock layerL ''P'' None None) of
      Inr (h', s') \<Rightarrow>
        map (\<lambda>b. (block_startTime (blockAt h' b), block_endTime (blockAt h' b)))
            (blocks (animationAt h' (hd (animations (timeline s')))))
          = [(num 100, num 300), (num 300, num 400)]
    | Inl e \<Rightarrow> False)"
  by (simp add: ADD_BLOCK_def fixture_defs lookup_defs gap_defs num_simps Let_def heap_defs
        selectBlockId_def set_defs)

subsection \<open>The path compatibilizer\<close>

lemma foldl_addCollapsingSubPath:
  "foldl (\<lambda>m i. addCollapsingSubPath (getPoleOfInaccessibility env larger i)
                   (length (getCommands (larger ! i))) m) p is
   = p @ map (collapsingSubPathFor env larger) is"
  by (induction "is" arbitrary: p) (simp_all add: addCollapsingSubPath_def collapsingSubPathFor_def)

lemma padSubPaths_eq:
  "padSubPaths env path oppPath =
     (path @ map (collapsingSubPathFor env oppPath) [length path..<length oppPath],
      oppPath @ map (collapsingSubPathFor env path) [length oppPath..<length path])"
  by (auto simp: padSubPaths_def Let_def foldl_addCollapsingSubPath min_def max_def)

lemma commandCounts_collapsing:
  "n \<le> length larger \<Longrightarrow>
   commandCounts (map (collapsingSubPathFor env larger) [n..<length larger])
     = drop n (commandCounts larger)"
  by (rule nth_equalityI) (simp_all add: commandCounts_def collapsingSubPathFor_def)

lemma commandCounts_append: "commandCounts (p @ q) = commandCounts p @ commandCounts q"
  by (simp add: commandCounts_def)

lemma length_commandCounts: "length (commandCounts p) = length p"
  by (simp add: commandCounts_def)

lemma commandCounts_pad:
  "commandCounts (fst (padSubPaths env path oppPath))
     = commandCounts path @ drop (length path) (commandCounts oppPath) \<and>
   commandCounts (snd (padSubPaths env path oppPath))
     = commandCounts oppPath @ drop (length oppPath) (commandCounts path)"
proof (cases "length path \<le> length oppPath")
  case True
  then show ?thesis
    by (simp add: padSubPaths_eq commandCounts_append commandCounts_collapsing length_commandCounts)
next
  case False
  then show ?thesis
    by (simp add: padSubPaths_eq commandCounts_append commandCounts_collapsing length_commandCounts)
qed

lemma commandCounts_unconvertSubPath:
  "commandCounts (unconvertSubPath i p) = commandCounts p"
  by (auto simp: unconvertSubPath_def commandCounts_def map_update list_update_same_conv)

lemma autoConvertLoop_counts:
  assumes "keepsCommandCounts env"
  shows "\<forall>i\<in>set is. i < length path \<and> i < length oppPath \<Longrightarrow>
     \<exists>path' oppPath'. autoConvertLoop env is path oppPath = Inr (path', oppPath') \<and>
        commandCounts path' = commandCounts path \<and> commandCounts oppPath' = commandCounts oppPath"
proof (induction "is" arbitrary: path oppPath)
  case Nil
  then show ?case by simp
next
  case (Cons i "is")
  show ?case
  proof (cases "length (getCommands (path ! i)) = length (getCommands (oppPath ! i))")
    case False
    with Cons show ?thesis by simp
  next
    case True
    obtain f t where ft: "autoConvert env i path (unconvertSubPath i oppPath) = (f, t)"
      by (cases "autoConvert env i path (unconvertSubPath i oppPath)")
    from assms have
      "commandCounts (fst (autoConvert env i path (unconvertSubPath i oppPath)))
         = commandCounts path"
      "commandCounts (snd (autoConvert env i path (unconvertSubPath i oppPath)))
         = commandCounts (unconvertSubPath i oppPath)"
      unfolding keepsCommandCounts_def by blast+
    then have cf: "commandCounts f = commandCounts path"
      and ct: "commandCounts t = commandCounts oppPath"
      by (simp_all add: ft commandCounts_unconvertSubPath)
    have "length f = length path" "length t = length oppPath"
      using cf ct length_commandCounts by metis+
    with Cons.prems have "\<forall>j\<in>set is. j < length f \<and> j < length t" by simp
    from Cons.IH[OF this] cf ct True Cons.prems ft show ?thesis by simp
  qed
qed

lemma foldl_unconvertSubPath:
  "k \<le> length p \<Longrightarrow>
   foldl (\<lambda>m i. unconvertSubPath i m) p [0..<k] = map unconvertAll (take k p) @ drop k p"
proof (induction k)
  case 0
  then show ?case by simp
next
  case (Suc k)
  then have k: "k < length p" by simp
  with Suc have "foldl (\<lambda>m i. unconvertSubPath i m) p [0..<Suc k]
      = unconvertSubPath k (map unconvertAll (take k p) @ drop k p)"
    by simp
  also have "\<dots> = map unconvertAll (take (Suc k) p) @ drop (Suc k) p"
    using k
    by (simp add: unconvertSubPath_def list_update_append nth_append take_Suc_conv_app_nth
          unconvertAll_def Cons_nth_drop_Suc[symmetric] min_def)
  finally show ?case .
qed

lemma normalizePath_eq:
  "normalizePath path = filter (\<lambda>sp. \<not> isCollapsing sp) (map unconvertAll path)"
  by (simp add: normalizePath_def deleteCollapsingSubPaths_def foldl_unconvertSubPath)

lemma noPromotions_unconvertAll: "noPromotions (unconvertAll sp)"
  by (simp add: noPromotions_def unconvertAll_def list_all_iff unconvertCommand_def)

lemma normalizePath_clean:
  "list_all (\<lambda>sp. \<not> isCollapsing sp \<and> noPromotions sp) (normalizePath path)"
  by (auto simp: normalizePath_eq list_all_iff noPromotions_unconvertAll)

lemma unconvertSubPath_nth:
  "i < length q \<Longrightarrow> noPromotions (unconvertSubPath i q ! i)"
  by (simp add: unconvertSubPath_def noPromotions_def list_all_iff unconvertCommand_def)

lemma length_padSubPaths:
  "length (fst (padSubPaths env path oppPath)) = max (length path) (length oppPath)"
  "length (snd (padSubPaths env path oppPath)) = max (length path) (length oppPath)"
  by (simp_all add: padSubPaths_eq)

lemma reconcile_PathValue:
  "reconcile env path (Some (PathValue oppPath0)) =
     (case autoConvertLoop env
             [0..<max (length (normalizePath path)) (length (deleteCollapsingSubPaths oppPath0))]
             (fst (padSubPaths env (normalizePath path) (deleteCollapsingSubPaths oppPath0)))
             (snd (padSubPaths env (normalizePath path) (deleteCollapsingSubPaths oppPath0))) of
        Inl e \<Rightarrow> Inl e
      | Inr (path', oppPath') \<Rightarrow> Inr (Some (PathValue path'), Some (PathValue oppPath')))"
  by (simp add: reconcile_def makeCompatible_def Let_def case_prod_unfold)

text \<open>
  What an UpdatePathBlock action does to the block it names, in terms of the reconciled
  values: the block of the returned state is the block of the input state, assigned in
  place.
\<close>

lemma reducer_UpdatePathBlock:
  assumes ai: "findIndex (\<lambda>a. anim_id (animationAt h a) = activeAnimationId (timeline s))
                 (animations (timeline s)) = Some ai"
    and bi: "findIndex (\<lambda>b. block_id (blockAt h b) = blockId)
                 (blocks (animationAt h (animations (timeline s) ! ai))) = Some bi"
  shows "reconcile env path
           (getBlockPathFn
              (blockAt h (blocks (animationAt h (animations (timeline s) ! ai)) ! bi))
              (if source = Start then End else Start)) = Inl e \<Longrightarrow>
         reducer env h s (UpdatePathBlock blockId source path) = Inl e"
    and "reconcile env path
           (getBlockPathFn
              (blockAt h (blocks (animationAt h (animations (timeline s) ! ai)) ! bi))
              (if source = Start then End else Start)) = Inr (p', o') \<Longrightarrow>
         \<exists>h' s'. reducer env h s (UpdatePathBlock blockId source path) = Inr (h', s') \<and>
           getBlockPathFn
             (blockAt h' (blocks (animationAt h' (animations (timeline s') ! ai)) ! bi))
             source = p' \<and>
           getBlockPathFn
             (blockAt h' (blocks (animationAt h' (animations (timeline s') ! ai)) ! bi))
             (if source = Start then End else Start) = o'"
proof -
  let ?a = "animations (timeline s) ! ai"
  let ?bs = "blocks (animationAt h ?a)"
  let ?b = "?bs ! bi"
  let ?opp = "if source = Start then End else Start"
  show "reducer env h s (UpdatePathBlock blockId source path) = Inl e"
    if "reconcile env path (getBlockPathFn (blockAt h ?b) ?opp) = Inl e"
    using that by (simp add: updatePathAnimationBlock_def ai bi Let_def)
  show "\<exists>h' s'. reducer env h s (UpdatePathBlock blockId source path) = Inr (h', s') \<and>
           getBlockPathFn
             (blockAt h' (blocks (animationAt h' (animations (timeline s') ! ai)) ! bi))
             source = p' \<and>
           getBlockPathFn
             (blockAt h' (blocks (animationAt h' (animations (timeline s') ! ai)) ! bi))
             ?opp = o'"
    if r: "reconcile env path (getBlockPathFn (blockAt h ?b) ?opp) = Inr (p', o')"
  proof -
    let ?h1 = "setBlockPathFn h ?b source p'"
    let ?h2 = "setBlockPathFn ?h1 ?b ?opp o'"
    let ?h3 = "set_blocks ?h2 ?a (?bs[bi := ?b])"
    have red: "reducer env h s (UpdatePathBlock blockId source path)
        = Inr (?h3, s\<lparr>state_animations := Some ((animations (timeline s))[ai := ?a])\<rparr>)"
      using r by (simp add: updatePathAnimationBlock_def ai bi Let_def)
    have bl: "blocks (animationAt ?h3 ?a) = ?bs"
      by (simp add: animationAt_set_blocks animationAt_setBlockPathFn)
    have neq: "?opp \<noteq> source" by (cases source) simp_all
    have src: "getBlockPathFn (blockAt ?h3 ?b) source = p'"
      using neq by (simp add: blockAt_set_blocks getBlockPathFn_set_other getBlockPathFn_set_same)
    have opp: "getBlockPathFn (blockAt ?h3 ?b) ?opp = o'"
      by (simp only: blockAt_set_blocks getBlockPathFn_set_same)
    show ?thesis
      using red bl src opp by simp
  qed
qed

text \<open>
  C6: an UpdatePathBlock action on a block whose opposite endpoint is a path writes back
  two paths obtained as follows. With \<open>n\<close> and \<open>m\<close> the subpath counts of the normalized
  endpoints, the endpoint with fewer subpaths gains one collapsing subpath for each index
  from \<open>min n m\<close> up to \<open>max n m\<close>, at the pole of the subpath of the other endpoint with
  that index and with as many commands; the other endpoint is left as it is; the
  conversion loop then runs on these two paths. When \<open>autoConvert\<close> keeps the command
  counts, the action succeeds and both endpoints of the block have \<open>max n m\<close> subpaths with
  these command counts: one subpath of 4 commands against two subpaths of 4 commands gives
  the counts \<open>[4, 4]\<close> on both sides.
\<close>

theorem UPDATE_PATH_BLOCK_equalizes_subpath_counts:
  assumes keeps: "keepsCommandCounts env"
    and ai: "findIndex (\<lambda>a. anim_id (animationAt h a) = activeAnimationId (timeline s))
                 (animations (timeline s)) = Some ai"
    and bi: "findIndex (\<lambda>b. block_id (blockAt h b) = blockId)
                 (blocks (animationAt h (animations (timeline s) ! ai))) = Some bi"
    and opp: "getBlockPathFn
                (blockAt h (blocks (animationAt h (animations (timeline s) ! ai)) ! bi))
                (if source = Start then End else Start) = Some (PathValue oppPath0)"
  shows "(let pth = normalizePath path; opp = deleteCollapsingSubPaths oppPath0;
              n = length pth; m = length opp
          in \<exists>h' s' path' oppPath'.
               reducer env h s (UpdatePathBlock blockId source path) = Inr (h', s') \<and>
               getBlockPathFn
                 (blockAt h' (blocks (animationAt h' (animations (timeline s') ! ai)) ! bi))
                 source = Some (PathValue path') \<and>
               getBlockPathFn
                 (blockAt h' (blocks (animationAt h' (animations (timeline s') ! ai)) ! bi))
                 (if source = Start then End else Start) = Some (PathValue oppPath') \<and>
               autoConvertLoop env [0..<max n m]
                 (pth @ map (collapsingSubPathFor env opp) [n..<m])
                 (opp @ map (collapsingSubPathFor env pth) [m..<n]) = Inr (path', oppPath') \<and>
               length path' = max n m \<and> length oppPath' = max n m \<and>
               commandCounts path' = commandCounts pth @ drop n (commandCounts opp) \<and>
               commandCounts oppPath' = commandCounts opp @ drop m (commandCounts pth) \<and>
               (commandCounts pth = [4] \<and> commandCounts opp = [4, 4] \<longrightarrow>
                  commandCounts path' = [4, 4] \<and> commandCounts oppPath' = [4, 4]) \<and>
               (commandCounts pth = [4, 4] \<and> commandCounts opp = [4] \<longrightarrow>
                  commandCounts path' = [4, 4] \<and> commandCounts oppPath' = [4, 4]))"
proof -
  define pth where "pth = normalizePath path"
  define opp where "opp = deleteCollapsingSubPaths oppPath0"
  define n where "n = length pth"
  define m where "m = length opp"
  define pth1 where "pth1 = pth @ map (collapsingSubPathFor env opp) [n..<m]"
  define opp1 where "opp1 = opp @ map (collapsingSubPathFor env pth) [m..<n]"
  have pad: "padSubPaths env pth opp = (pth1, opp1)"
    by (simp add: padSubPaths_eq n_def m_def pth1_def opp1_def)
  have l1: "length pth1 = max n m" and l2: "length opp1 = max n m"
    by (simp_all add: pth1_def opp1_def n_def m_def)
  have c1: "commandCounts pth1 = commandCounts pth @ drop n (commandCounts opp)"
    and c2: "commandCounts opp1 = commandCounts opp @ drop m (commandCounts pth)"
    using commandCounts_pad[of env pth opp] by (simp_all add: pad n_def m_def)
  have "\<forall>i\<in>set [0..<max n m]. i < length pth1 \<and> i < length opp1"
    by (simp add: l1 l2)
  from autoConvertLoop_counts[OF keeps this]
  obtain p' o' where loop: "autoConvertLoop env [0..<max n m] pth1 opp1 = Inr (p', o')"
    and cp: "commandCounts p' = commandCounts pth1" and co: "commandCounts o' = commandCounts opp1"
    by blast
  have rec: "reconcile env path
           (getBlockPathFn
              (blockAt h (blocks (animationAt h (animations (timeline s) ! ai)) ! bi))
              (if source = Start then End else Start))
        = Inr (Some (PathValue p'), Some (PathValue o'))"
    unfolding opp reconcile_PathValue pth_def[symmetric] opp_def[symmetric]
      n_def[symmetric] m_def[symmetric] pad fst_conv snd_conv loop
    by simp
  from reducer_UpdatePathBlock(2)[OF ai bi rec]
  obtain h' s' where red: "reducer env h s (UpdatePathBlock blockId source path) = Inr (h', s')"
    and src: "getBlockPathFn
             (blockAt h' (blocks (animationAt h' (animations (timeline s') ! ai)) ! bi))
             source = Some (PathValue p')"
    and ops: "getBlockPathFn
             (blockAt h' (blocks (animationAt h' (animations (timeline s') ! ai)) ! bi))
             (if source = Start then End else Start) = Some (PathValue o')"
    by blast
  have lp: "length p' = max n m" and lo: "length o' = max n m"
    using cp co l1 l2 by (metis length_commandCounts)+
  have ex1: "commandCounts p' = [4, 4] \<and> commandCounts o' = [4, 4]"
    if "commandCounts pth = [4] \<and> commandCounts opp = [4, 4]"
  proof -
    from that have "n = 1" "m = 2"
      using length_commandCounts[of pth] length_commandCounts[of opp] by (simp_all add: n_def m_def)
    with that cp co c1 c2 show ?thesis by simp
  qed
  have ex2: "commandCounts p' = [4, 4] \<and> commandCounts o' = [4, 4]"
    if "commandCounts pth = [4, 4] \<and> commandCounts opp = [4]"
  proof -
    from that have "n = 2" "m = 1"
      using length_commandCounts[of pth] length_commandCounts[of opp] by (simp_all add: n_def m_def)
    with that cp co c1 c2 show ?thesis by simp
  qed
  have "\<exists>h' s' path' oppPath'.
               reducer env h s (UpdatePathBlock blockId source path) = Inr (h', s') \<and>
               getBlockPathFn
                 (blockAt h' (blocks (animationAt h' (animations (timeline s') ! ai)) ! bi))
                 source = Some (PathValue path') \<and>
               getBlockPathFn
                 (blockAt h' (blocks (animationAt h' (animations (timeline s') ! ai)) ! bi))
                 (if source = Start then End else Start) = Some (PathValue oppPath') \<and>
               autoConvertLoop env [0..<max n m] pth1 opp1 = Inr (path', oppPath') \<and>
               length path' = max n m \<and> length oppPath' = max n m \<and>
               commandCounts path' = commandCounts pth @ drop n (commandCounts opp) \<and>
               commandCounts oppPath' = commandCounts opp @ drop m (commandCounts pth) \<and>
               (commandCounts pth = [4] \<and> commandCounts opp = [4, 4] \<longrightarrow>
                  commandCounts path' = [4, 4] \<and> commandCounts oppPath' = [4, 4]) \<and>
               (commandCounts pth = [4, 4] \<and> commandCounts opp = [4] \<longrightarrow>
                  commandCounts path' = [4, 4] \<and> commandCounts oppPath' = [4, 4])"
    using red src ops loop lp lo cp co c1 c2 ex1 ex2 by (intro exI[of _ h'] exI[of _ s'] exI[of _ p'] exI[of _ o']) simp
  then show ?thesis
    unfolding Let_def pth_def[symmetric] opp_def[symmetric] n_def[symmetric] m_def[symmetric]
      pth1_def[symmetric] opp1_def[symmetric] .
qed

lemma pathHeap_indexes:
  "findIndex (\<lambda>a. anim_id (animationAt (pathHeap from to) a) = activeAnimationId (timeline state5))
     (animations (timeline state5)) = Some 0"
  "findIndex (\<lambda>b. block_id (blockAt (pathHeap from to) b) = ''b0'')
     (blocks (animationAt (pathHeap from to) (animations (timeline state5) ! 0))) = Some 0"
  by (simp_all add: pathHeap_simps state5_timeline pathBlock_simps)

lemma commandCounts_examples:
  "commandCounts [plainSubPath 4] = [4]"
  "commandCounts [plainSubPath 4, plainSubPath 4] = [4, 4]"
  "commandCounts [plainSubPath 4, collapsing4] = [4, 4]"
  by (simp_all add: commandCounts_def length_plain length_collapsing4)

theorem UPDATE_PATH_BLOCK_equalizes_subpath_counts_witness:
  "keepsCommandCounts env0 \<and>
   findIndex (\<lambda>a. anim_id (animationAt (pathHeap [plainSubPath 4]
                                 [plainSubPath 4, plainSubPath 4]) a)
                   = activeAnimationId (timeline state5))
     (animations (timeline state5)) = Some 0 \<and>
   findIndex (\<lambda>b. block_id (blockAt (pathHeap [plainSubPath 4]
                                 [plainSubPath 4, plainSubPath 4]) b) = ''b0'')
     (blocks (animationAt (pathHeap [plainSubPath 4] [plainSubPath 4, plainSubPath 4])
                (animations (timeline state5) ! 0))) = Some 0 \<and>
   getBlockPathFn
     (blockAt (pathHeap [plainSubPath 4] [plainSubPath 4, plainSubPath 4])
        (blocks (animationAt (pathHeap [plainSubPath 4] [plainSubPath 4, plainSubPath 4])
                   (animations (timeline state5) ! 0)) ! 0)) End
     = Some (PathValue [plainSubPath 4, plainSubPath 4]) \<and>
   (\<exists>h' s'.
      reducer env0 (pathHeap [plainSubPath 4] [plainSubPath 4, plainSubPath 4]) state5
        (UpdatePathBlock ''b0'' Start [plainSubPath 4]) = Inr (h', s') \<and>
      block_fromValue (blockAt h' (blocks (animationAt h' (animations (timeline s') ! 0)) ! 0))
        = Some (PathValue [plainSubPath 4, collapsing4]) \<and>
      block_toValue (blockAt h' (blocks (animationAt h' (animations (timeline s') ! 0)) ! 0))
        = Some (PathValue [plainSubPath 4, plainSubPath 4])) \<and>
   commandCounts [plainSubPath 4, collapsing4] = [4, 4] \<and>
   commandCounts [plainSubPath 4, plainSubPath 4] = [4, 4]"
proof -
  let ?h = "pathHeap [plainSubPath 4] [plainSubPath 4, plainSubPath 4]"
  have opp: "getBlockPathFn
     (blockAt ?h (blocks (animationAt ?h (animations (timeline state5) ! 0)) ! 0))
     (if Start = Start then End else Start)
     = Some (PathValue [plainSubPath 4, plainSubPath 4])"
    by (simp add: pathHeap_simps pathBlock_simps)
  have coll: "collapsingSubPathFor env0 [plainSubPath 4, plainSubPath 4] (Suc 0) = collapsing4"
    by (simp add: collapsingSubPathFor_def env0_simps length_plain collapsing4_def)
  have unc: "unconvertSubPath (Suc 0) [plainSubPath 4, plainSubPath 4]
      = [plainSubPath 4, plainSubPath 4]"
    by (simp add: unconvertSubPath_def plainSubPath_def unconvertCommand_def)
  from UPDATE_PATH_BLOCK_equalizes_subpath_counts[OF keepsCommandCounts_env0
      pathHeap_indexes(1) pathHeap_indexes(2) opp, where path = "[plainSubPath 4]"]
  have "\<exists>h' s'.
      reducer env0 ?h state5 (UpdatePathBlock ''b0'' Start [plainSubPath 4]) = Inr (h', s') \<and>
      getBlockPathFn (blockAt h' (blocks (animationAt h' (animations (timeline s') ! 0)) ! 0))
        Start = Some (PathValue [plainSubPath 4, collapsing4]) \<and>
      getBlockPathFn (blockAt h' (blocks (animationAt h' (animations (timeline s') ! 0)) ! 0))
        End = Some (PathValue [plainSubPath 4, plainSubPath 4])"
    by (simp add: Let_def normalize_plain delete_plain2 upt_rec coll unc env0_simps length_plain
          length_collapsing4 unconvert_plain)
       blast
  then show ?thesis
    using keepsCommandCounts_env0 pathHeap_indexes opp
    by (simp add: getBlockPathFn_def commandCounts_examples)
qed

subsection \<open>Normalization of the endpoints\<close>

lemma unconvert_promoted: "unconvertSubPath 0 [promotedSubPath] = [plainSubPath 1]"
  by (simp add: unconvertSubPath_def promotedSubPath_def plainSubPath_def unconvertCommand_def)

lemma normalize_promoted: "normalizePath [promotedSubPath, collapsing4] = [plainSubPath 1]"
  by (simp add: normalizePath_def upt_rec unconvertSubPath_def deleteCollapsingSubPaths_def)
     (simp add: promotedSubPath_def plainSubPath_def collapsing4_def unconvertCommand_def)

















subsection \<open>Deleting the selected models\<close>

lemma deleteSelectedAnimations_nonempty:
  "deleteSelectedAnimations env h s = (h', s') \<Longrightarrow> animations (timeline s) \<noteq> [] \<Longrightarrow>
   animations (timeline s') \<noteq> [] \<and> vectorLayers (layers s') = vectorLayers (layers s)"
  by (auto simp: deleteSelectedAnimations_def Let_def new_Animation_def split: if_splits prod.splits)

lemma deleteSelectedBlocks_nonempty:
  "deleteSelectedBlocks h s = (h', s') \<Longrightarrow> animations (timeline s) \<noteq> [] \<Longrightarrow>
   animations (timeline s') \<noteq> [] \<and> vectorLayers (layers s') = vectorLayers (layers s)"
  by (auto simp: deleteSelectedBlocks_def Let_def split: if_splits prod.splits
      dest!: length_removeSelectedBlocks)

lemma deleteSelectedLayers_nonempty:
  "deleteSelectedLayers env h s = (h', s') \<Longrightarrow> vectorLayers (layers s) \<noteq> [] \<Longrightarrow>
   vectorLayers (layers s') \<noteq> [] \<and> animations (timeline s') = animations (timeline s)"
  by (auto simp: deleteSelectedLayers_def Let_def new_VectorLayer_def split: if_splits prod.splits)

lemma DELETE_SELECTED_MODELS_pools:
  "DELETE_SELECTED_MODELS env h s = (h', s') \<Longrightarrow> poolsNonEmpty s \<Longrightarrow> poolsNonEmpty s'"
  unfolding DELETE_SELECTED_MODELS_def poolsNonEmpty_def
  by (auto split: prod.splits dest!: deleteSelectedAnimations_nonempty
        deleteSelectedBlocks_nonempty deleteSelectedLayers_nonempty)

lemma reducer_pools:
  "poolsNonEmpty s \<Longrightarrow> reducer env h s a = Inr (h', s') \<Longrightarrow> poolsNonEmpty s'"
proof (cases a)
  case NewWorkspace
  assume "reducer env h s a = Inr (h', s')"
  with NewWorkspace show ?thesis
    by (auto simp: buildInitialState_def poolsNonEmpty_def Let_def split: prod.splits)
next
  case (AddAnimations as)
  assume "poolsNonEmpty s" "reducer env h s a = Inr (h', s')"
  with AddAnimations show ?thesis
    by (auto simp: ADD_ANIMATIONS_def poolsNonEmpty_def Let_def split: if_splits)
next
  case (SelectAnimation i c)
  assume "poolsNonEmpty s" "reducer env h s a = Inr (h', s')"
  with SelectAnimation show ?thesis
    by (auto simp: selectAnimationId_def poolsNonEmpty_def Let_def split: if_splits)
next
  case (ActivateAnimation i)
  assume "poolsNonEmpty s" "reducer env h s a = Inr (h', s')"
  with ActivateAnimation show ?thesis
    by (auto simp: ACTIVATE_ANIMATION_def poolsNonEmpty_def Let_def split: if_splits)
next
  case (ReplaceAnimations as)
  assume "poolsNonEmpty s" "reducer env h s a = Inr (h', s')"
  with ReplaceAnimations show ?thesis
    by (auto simp: REPLACE_ANIMATIONS_def poolsNonEmpty_def Let_def split: if_splits)
next
  case (AddBlock l p f t)
  assume "poolsNonEmpty s" "reducer env h s a = Inr (h', s')"
  with AddBlock show ?thesis
    by (auto simp: ADD_BLOCK_def poolsNonEmpty_def Let_def selectBlockId_def
        split: option.splits prod.splits if_splits sum.splits dest!: length_appendBlockToClones)
next
  case (SelectBlock i c)
  assume "poolsNonEmpty s" "reducer env h s a = Inr (h', s')"
  with SelectBlock show ?thesis
    by (auto simp: selectBlockId_def poolsNonEmpty_def Let_def split: if_splits)
next
  case (ReplaceBlocks bs)
  assume "poolsNonEmpty s" "reducer env h s a = Inr (h', s')"
  with ReplaceBlocks show ?thesis
    by (auto simp: REPLACE_BLOCKS_def poolsNonEmpty_def Let_def
        split: if_splits prod.splits sum.splits dest!: length_cloneAnimationsIn)
next
  case (UpdatePathBlock b src p)
  assume "poolsNonEmpty s" "reducer env h s a = Inr (h', s')"
  with UpdatePathBlock show ?thesis
    by (auto simp: updatePathAnimationBlock_def poolsNonEmpty_def Let_def
        split: option.splits prod.splits sum.splits)
next
  case (AddLayers ls)
  assume "poolsNonEmpty s" "reducer env h s a = Inr (h', s')"
  with AddLayers show ?thesis
    by (cases "ADD_LAYERS s ls")
       (auto simp: ADD_LAYERS_def poolsNonEmpty_def Let_def split: option.splits if_splits)
next
  case (SelectLayer i t c)
  assume "poolsNonEmpty s" "reducer env h s a = Inr (h', s')"
  with SelectLayer show ?thesis
    by (cases "selectLayerId s i t c")
       (auto simp: selectLayerId_def poolsNonEmpty_def Let_def split: option.splits if_splits)
next
  case ClearLayerSelections
  assume "poolsNonEmpty s" "reducer env h s a = Inr (h', s')"
  with ClearLayerSelections show ?thesis
    by (auto simp: CLEAR_LAYER_SELECTIONS_def poolsNonEmpty_def Let_def split: if_splits)
next
  case (ToggleLayerExpansion i r)
  assume "poolsNonEmpty s" "reducer env h s a = Inr (h', s')"
  with ToggleLayerExpansion show ?thesis
    by (auto simp: TOGGLE_LAYER_EXPANSION_def poolsNonEmpty_def Let_def split: if_splits)
next
  case (ToggleLayerVisibility i)
  assume "poolsNonEmpty s" "reducer env h s a = Inr (h', s')"
  with ToggleLayerVisibility show ?thesis
    by (auto simp: TOGGLE_LAYER_VISIBILITY_def poolsNonEmpty_def Let_def split: if_splits)
next
  case (ReplaceLayer l)
  assume "poolsNonEmpty s" "reducer env h s a = Inr (h', s')"
  with ReplaceLayer show ?thesis
    by (cases "REPLACE_LAYER s l")
       (auto simp: REPLACE_LAYER_def poolsNonEmpty_def Let_def split: option.splits if_splits sum.splits)
next
  case DeleteSelectedModels
  assume "poolsNonEmpty s" "reducer env h s a = Inr (h', s')"
  with DeleteSelectedModels show ?thesis
    by (auto dest: DELETE_SELECTED_MODELS_pools)
next
  case OtherAction
  assume "poolsNonEmpty s" "reducer env h s a = Inr (h', s')"
  with OtherAction show ?thesis by auto
qed

lemma reachable_pools: "reachable env s \<Longrightarrow> poolsNonEmpty s"
proof (induction rule: reachable.induct)
  case (initial h h' s)
  then show ?case
    by (auto simp: buildInitialState_def poolsNonEmpty_def Let_def split: prod.splits)
next
  case (step s h a h' s')
  then show ?case by (blast intro: reducer_pools)
qed

lemma deleteSelectedAnimations_noop:
  "selectedAnimationIds (timeline s) = [] \<Longrightarrow> deleteSelectedAnimations env h s = (h, s)"
  by (simp add: deleteSelectedAnimations_def Set_size_def)

lemma deleteSelectedBlocks_noop:
  "selectedBlockIds (timeline s) = [] \<Longrightarrow> deleteSelectedBlocks h s = (h, s)"
  by (simp add: deleteSelectedBlocks_def Set_size_def)

lemma deleteSelectedLayers_noop:
  "selectedLayerIds (layers s) = [] \<Longrightarrow> deleteSelectedLayers env h s = (h, s)"
  by (simp add: deleteSelectedLayers_def Set_size_def)

lemma deleteSelectedAnimations_layers:
  "deleteSelectedAnimations env h s = (h', s') \<Longrightarrow> layers s' = layers s"
  by (auto simp: deleteSelectedAnimations_def Let_def split: if_splits prod.splits)

lemma deleteSelectedBlocks_layers:
  "deleteSelectedBlocks h s = (h', s') \<Longrightarrow> layers s' = layers s"
  by (auto simp: deleteSelectedBlocks_def Let_def split: if_splits prod.splits)

lemma deleteSelectedAnimations_active:
  "deleteSelectedAnimations env h s = (h', s') \<Longrightarrow>
   Set_has (selectedAnimationIds (timeline s)) (activeAnimationId (timeline s)) \<Longrightarrow>
   activeAnimationId (timeline s') = anim_id (animationAt h' (hd (animations (timeline s'))))"
  by (auto simp: deleteSelectedAnimations_def Let_def Set_has_def Set_size_def
      split: if_splits prod.splits)

lemma deleteSelectedLayers_active:
  "deleteSelectedLayers env h s = (h', s') \<Longrightarrow> selectedLayerIds (layers s) \<noteq> [] \<Longrightarrow>
   \<forall>vl\<in>set (vectorLayers (layers s')). layer_id vl \<noteq> activeVectorLayerId (layers s) \<Longrightarrow>
   activeVectorLayerId (layers s') = layer_id (hd (vectorLayers (layers s')))"
  by (auto simp: deleteSelectedLayers_def Let_def Set_size_def find_None_iff
      split: if_splits prod.splits)

lemma deleteSelectedAnimations_fresh:
  "deleteSelectedAnimations env h s = (h', s') \<Longrightarrow>
   selectedAnimationIds (timeline s) \<noteq> [] \<Longrightarrow>
   \<forall>a\<in>set (animations (timeline s)).
      Set_has (selectedAnimationIds (timeline s)) (anim_id (animationAt h a)) \<Longrightarrow>
   animations (timeline s') = [nextRef h] \<and>
   animationAt h' (nextRef h)
     = \<lparr>anim_id = uniqueId env (nextId h), duration = defaultDuration env, blocks = []\<rparr>"
  by (auto simp: deleteSelectedAnimations_def Let_def Set_size_def new_Animation_def
        filter_empty_conv split: if_splits prod.splits)

lemma deleteSelectedLayers_fresh:
  "deleteSelectedLayers env h s = (h', s') \<Longrightarrow>
   selectedLayerIds (layers s) \<noteq> [] \<Longrightarrow>
   fst (foldl deleteLayer
          (vectorLayers (layers s), collapsedLayerIds (layers s), hiddenLayerIds (layers s))
          (selectedLayerIds (layers s))) = [] \<Longrightarrow>
   vectorLayers (layers s') = [Layer (uniqueId env (nextId h)) True [] []]"
  by (auto simp: deleteSelectedLayers_def Let_def Set_size_def new_VectorLayer_def
        split: if_splits prod.splits)

lemma DELETE_SELECTED_MODELS_animations_only:
  assumes "atMostOneSelection s" and "selectedAnimationIds (timeline s) \<noteq> []"
  shows "DELETE_SELECTED_MODELS env h s = deleteSelectedAnimations env h s"
proof -
  obtain h1 s1 where d: "deleteSelectedAnimations env h s = (h1, s1)"
    by (cases "deleteSelectedAnimations env h s")
  from assms have "selectedBlockIds (timeline s) = []" "selectedLayerIds (layers s) = []"
    by (auto simp: atMostOneSelection_def)
  with deleteSelectedAnimations_selections[OF d]
  have "selectedBlockIds (timeline s1) = []" "selectedLayerIds (layers s1) = []"
    by (auto simp: selections_def)
  then show ?thesis
    by (simp add: DELETE_SELECTED_MODELS_def d deleteSelectedBlocks_noop deleteSelectedLayers_noop)
qed

lemma DELETE_SELECTED_MODELS_layers_only:
  assumes "atMostOneSelection s" and "selectedLayerIds (layers s) \<noteq> []"
  shows "DELETE_SELECTED_MODELS env h s = deleteSelectedLayers env h s"
proof -
  from assms have "selectedBlockIds (timeline s) = []" "selectedAnimationIds (timeline s) = []"
    by (auto simp: atMostOneSelection_def)
  then show ?thesis
    by (simp add: DELETE_SELECTED_MODELS_def deleteSelectedBlocks_noop deleteSelectedAnimations_noop)
qed

lemma DELETE_SELECTED_MODELS_no_layers:
  assumes "selectedLayerIds (layers s) = []" and "DELETE_SELECTED_MODELS env h s = (h', s')"
  shows "layers s' = layers s"
proof -
  obtain h1 s1 where d1: "deleteSelectedAnimations env h s = (h1, s1)"
    by (cases "deleteSelectedAnimations env h s")
  obtain h2 s2 where d2: "deleteSelectedBlocks h1 s1 = (h2, s2)"
    by (cases "deleteSelectedBlocks h1 s1")
  have l: "layers s2 = layers s"
    using deleteSelectedAnimations_layers[OF d1] deleteSelectedBlocks_layers[OF d2] by simp
  with assms(1) have "deleteSelectedLayers env h2 s2 = (h2, s2)"
    by (simp add: deleteSelectedLayers_noop)
  with assms(2) d1 d2 l show ?thesis
    by (simp add: DELETE_SELECTED_MODELS_def)
qed

text \<open>
  C8: after DeleteSelectedModels on a reachable state both pools are non-empty; when the
  id of the active animation was selected, the active animation id is the id of the first
  animation of the result; when no vector layer of the result has the id of the formerly
  active vector layer, the active vector layer id is the id of the first vector layer of
  the result; a pool whose elements were all deleted holds one fresh element. From
  animations \<open>[A, B]\<close> with \<open>A\<close> active and selected the result has the animations
  \<open>[B]\<close>, \<open>B\<close> active and no animation selected.
\<close>

theorem DELETE_SELECTED_MODELS_pools_and_active:
  assumes "reachable env s" and "reducer env h s DeleteSelectedModels = Inr (h', s')"
  shows "animations (timeline s') \<noteq> [] \<and> vectorLayers (layers s') \<noteq> [] \<and>
    (Set_has (selectedAnimationIds (timeline s)) (activeAnimationId (timeline s)) \<longrightarrow>
       activeAnimationId (timeline s') = anim_id (animationAt h' (hd (animations (timeline s'))))) \<and>
    ((\<exists>vl\<in>set (vectorLayers (layers s)). layer_id vl = activeVectorLayerId (layers s)) \<and>
     (\<forall>vl\<in>set (vectorLayers (layers s')). layer_id vl \<noteq> activeVectorLayerId (layers s)) \<longrightarrow>
       activeVectorLayerId (layers s') = layer_id (hd (vectorLayers (layers s')))) \<and>
    (selectedAnimationIds (timeline s) \<noteq> [] \<and>
     (\<forall>a\<in>set (animations (timeline s)).
        Set_has (selectedAnimationIds (timeline s)) (anim_id (animationAt h a))) \<longrightarrow>
       animations (timeline s') = [nextRef h] \<and>
       animationAt h' (nextRef h)
         = \<lparr>anim_id = uniqueId env (nextId h), duration = defaultDuration env, blocks = []\<rparr>) \<and>
    (selectedLayerIds (layers s) \<noteq> [] \<and>
     fst (foldl deleteLayer
            (vectorLayers (layers s), collapsedLayerIds (layers s), hiddenLayerIds (layers s))
            (selectedLayerIds (layers s))) = [] \<longrightarrow>
       vectorLayers (layers s') = [Layer (uniqueId env (nextId h)) True [] []]) \<and>
    (case reducer env0 heap8 state8 DeleteSelectedModels of
       Inr (h8, s8) \<Rightarrow>
         map (\<lambda>a. anim_id (animationAt h8 a)) (animations (timeline s8)) = [''B''] \<and>
         activeAnimationId (timeline s8) = ''B'' \<and> selectedAnimationIds (timeline s8) = []
     | Inl e \<Rightarrow> False)"
proof -
  from assms(2) have d: "DELETE_SELECTED_MODELS env h s = (h', s')" by simp
  from assms(1) have ex: "atMostOneSelection s" by (rule reachable_exclusive)
  from assms(1) have "poolsNonEmpty s" by (rule reachable_pools)
  with d have "poolsNonEmpty s'" by (rule DELETE_SELECTED_MODELS_pools)
  then have pools: "animations (timeline s') \<noteq> []" "vectorLayers (layers s') \<noteq> []"
    by (simp_all add: poolsNonEmpty_def)
  have anim: "activeAnimationId (timeline s') = anim_id (animationAt h' (hd (animations (timeline s'))))"
    if sel: "Set_has (selectedAnimationIds (timeline s)) (activeAnimationId (timeline s))"
  proof -
    from sel have "selectedAnimationIds (timeline s) \<noteq> []" by (auto simp: Set_has_def)
    with ex d have "deleteSelectedAnimations env h s = (h', s')"
      by (simp add: DELETE_SELECTED_MODELS_animations_only)
    then show ?thesis using sel by (rule deleteSelectedAnimations_active)
  qed
  have lay: "activeVectorLayerId (layers s') = layer_id (hd (vectorLayers (layers s')))"
    if was: "\<exists>vl\<in>set (vectorLayers (layers s)). layer_id vl = activeVectorLayerId (layers s)"
    and gone: "\<forall>vl\<in>set (vectorLayers (layers s')). layer_id vl \<noteq> activeVectorLayerId (layers s)"
  proof (cases "selectedLayerIds (layers s) = []")
    case True
    then have "layers s' = layers s" using d by (rule DELETE_SELECTED_MODELS_no_layers)
    with was gone show ?thesis by auto
  next
    case False
    with ex d have "deleteSelectedLayers env h s = (h', s')"
      by (simp add: DELETE_SELECTED_MODELS_layers_only)
    then show ?thesis using False gone by (rule deleteSelectedLayers_active)
  qed
  have fresh_anim: "animations (timeline s') = [nextRef h] \<and>
       animationAt h' (nextRef h)
         = \<lparr>anim_id = uniqueId env (nextId h), duration = defaultDuration env, blocks = []\<rparr>"
    if all: "selectedAnimationIds (timeline s) \<noteq> [] \<and>
     (\<forall>a\<in>set (animations (timeline s)).
        Set_has (selectedAnimationIds (timeline s)) (anim_id (animationAt h a)))"
  proof -
    from all ex d have del: "deleteSelectedAnimations env h s = (h', s')"
      by (simp add: DELETE_SELECTED_MODELS_animations_only)
    from all have sel: "selectedAnimationIds (timeline s) \<noteq> []"
      and every: "\<forall>a\<in>set (animations (timeline s)).
        Set_has (selectedAnimationIds (timeline s)) (anim_id (animationAt h a))"
      by blast+
    show ?thesis by (rule deleteSelectedAnimations_fresh[OF del sel every])
  qed
  have fresh_layer: "vectorLayers (layers s') = [Layer (uniqueId env (nextId h)) True [] []]"
    if all: "selectedLayerIds (layers s) \<noteq> [] \<and>
     fst (foldl deleteLayer
            (vectorLayers (layers s), collapsedLayerIds (layers s), hiddenLayerIds (layers s))
            (selectedLayerIds (layers s))) = []"
  proof -
    from all ex d have del: "deleteSelectedLayers env h s = (h', s')"
      by (simp add: DELETE_SELECTED_MODELS_layers_only)
    from all have sel: "selectedLayerIds (layers s) \<noteq> []"
      and none: "fst (foldl deleteLayer
            (vectorLayers (layers s), collapsedLayerIds (layers s), hiddenLayerIds (layers s))
            (selectedLayerIds (layers s))) = []"
      by blast+
    show ?thesis by (rule deleteSelectedLayers_fresh[OF del sel none])
  qed
  have example: "(case reducer env0 heap8 state8 DeleteSelectedModels of
       Inr (h8, s8) \<Rightarrow>
         map (\<lambda>a. anim_id (animationAt h8 a)) (animations (timeline s8)) = [''B''] \<and>
         activeAnimationId (timeline s8) = ''B'' \<and> selectedAnimationIds (timeline s8) = []
     | Inl e \<Rightarrow> False)"
    by (simp add: DELETE_SELECTED_MODELS_def deleteSelectedAnimations_def
          deleteSelectedBlocks_def deleteSelectedLayers_def heap8_def state8_def
          Set_has_def Set_size_def Let_def)
  from pools anim lay fresh_anim fresh_layer example show ?thesis by blast
qed

lemma select_uu:
  "selectAnimationId initialState ''uu'' True
     = initialState\<lparr>timeline := (timeline initialState)\<lparr>selectedAnimationIds := [''uu'']\<rparr>\<rparr>"
  by (simp add: initialState_val selectAnimationId_def set_defs Let_def)

lemma select_layer_u:
  "selectLayerId initialState ''u'' False True
     = Inr (initialState\<lparr>layers := (layers initialState)\<lparr>selectedLayerIds := [''u'']\<rparr>\<rparr>)"
  by (simp add: initialState_val selectLayerId_def set_defs Let_def
        findParentVectorLayer_def findLayerById_def)

lemma delete_uu:
  "DELETE_SELECTED_MODELS env0 initialHeap
     (initialState\<lparr>timeline := (timeline initialState)\<lparr>selectedAnimationIds := [''uu'']\<rparr>\<rparr>)
   = (initialHeap\<lparr>animationAt := (animationAt initialHeap)
                     (1 := \<lparr>anim_id = ''uuu'', duration = num 300, blocks = []\<rparr>),
                   nextRef := 2, nextId := 3\<rparr>,
      initialState\<lparr>timeline := (timeline initialState)\<lparr>animations := [1],
                       activeAnimationId := ''uuu''\<rparr>\<rparr>)"
  by (simp add: DELETE_SELECTED_MODELS_def deleteSelectedAnimations_def deleteSelectedBlocks_def
        deleteSelectedLayers_def initialHeap_val initialState_val set_defs
        new_Animation_def env0_simps Let_def eval_nat_numeral)

lemma delete_layer_u:
  "DELETE_SELECTED_MODELS env0 initialHeap
     (initialState\<lparr>layers := (layers initialState)\<lparr>selectedLayerIds := [''u'']\<rparr>\<rparr>)
   = (initialHeap\<lparr>nextId := 3\<rparr>,
      initialState\<lparr>layers := (layers initialState)\<lparr>vectorLayers := [Layer ''uuu'' True [] []],
                       activeVectorLayerId := ''uuu''\<rparr>\<rparr>)"
  by (simp add: DELETE_SELECTED_MODELS_def deleteSelectedAnimations_def deleteSelectedBlocks_def
        deleteSelectedLayers_def deleteLayer_def initialHeap_val initialState_val
        set_defs new_VectorLayer_def env0_simps Let_def findParentVectorLayer_def findLayerById_def
        eval_nat_numeral)

theorem DELETE_SELECTED_MODELS_pools_and_active_witness:
  "reachable env0 (selectAnimationId initialState ''uu'' True) \<and>
   (case reducer env0 initialHeap (selectAnimationId initialState ''uu'' True)
           DeleteSelectedModels of
      Inr (h', s') \<Rightarrow>
        animations (timeline s') = [1] \<and> anim_id (animationAt h' 1) = ''uuu'' \<and>
        activeAnimationId (timeline s') = ''uuu'' \<and>
        vectorLayers (layers s') = [Layer ''u'' True [] []]
    | Inl e \<Rightarrow> False) \<and>
   selectLayerId initialState ''u'' False True
     = Inr (initialState\<lparr>layers := (layers initialState)\<lparr>selectedLayerIds := [''u'']\<rparr>\<rparr>) \<and>
   (case reducer env0 initialHeap
           (initialState\<lparr>layers := (layers initialState)\<lparr>selectedLayerIds := [''u'']\<rparr>\<rparr>)
           DeleteSelectedModels of
      Inr (h', s') \<Rightarrow>
        vectorLayers (layers s') = [Layer ''uuu'' True [] []] \<and>
        activeVectorLayerId (layers s') = ''uuu'' \<and> animations (timeline s') = [0]
    | Inl e \<Rightarrow> False)"
proof -
  let ?sa = "selectAnimationId initialState ''uu'' True"
  let ?sl = "initialState\<lparr>layers := (layers initialState)\<lparr>selectedLayerIds := [''u'']\<rparr>\<rparr>"
  have ra: "reachable env0 ?sa"
    by (rule reachable.step[OF reachable_initialState, of heap0 "SelectAnimation ''uu'' True" heap0])
       simp
  have rl: "reachable env0 ?sl"
    by (rule reachable.step[OF reachable_initialState, of heap0 "SelectLayer ''u'' False True" heap0])
       (simp add: select_layer_u)
  obtain ha sa' where da: "reducer env0 initialHeap ?sa DeleteSelectedModels = Inr (ha, sa')"
    by (cases "DELETE_SELECTED_MODELS env0 initialHeap ?sa") simp
  obtain hl sl' where dl: "reducer env0 initialHeap ?sl DeleteSelectedModels = Inr (hl, sl')"
    by (cases "DELETE_SELECTED_MODELS env0 initialHeap ?sl") simp
  note a = DELETE_SELECTED_MODELS_pools_and_active[OF ra da]
  note l = DELETE_SELECTED_MODELS_pools_and_active[OF rl dl]
  from da have ea: "ha = fst (DELETE_SELECTED_MODELS env0 initialHeap ?sa)"
    "sa' = snd (DELETE_SELECTED_MODELS env0 initialHeap ?sa)" by simp_all
  from dl have el: "hl = fst (DELETE_SELECTED_MODELS env0 initialHeap ?sl)"
    "sl' = snd (DELETE_SELECTED_MODELS env0 initialHeap ?sl)" by simp_all
  have va: "animations (timeline sa') = [1] \<and> anim_id (animationAt ha 1) = ''uuu'' \<and>
        activeAnimationId (timeline sa') = ''uuu'' \<and>
        vectorLayers (layers sa') = [Layer ''u'' True [] []]"
    using a unfolding ea select_uu delete_uu
    by (simp add: initialState_val)
  have vl: "vectorLayers (layers sl') = [Layer ''uuu'' True [] []] \<and>
        activeVectorLayerId (layers sl') = ''uuu'' \<and> animations (timeline sl') = [0]"
    using l unfolding el delete_layer_u
    by (simp add: initialState_val)
  from ra va vl show ?thesis
    unfolding da dl by (simp add: select_layer_u)
qed

subsection \<open>Repeating an action\<close>

text \<open>
  C9: applying a SelectAnimation action a second time should return the state of the first
  application. With block \<open>b0\<close> selected, selecting animation \<open>a\<close> without \<open>clearExisting\<close>
  gives the selection \<open>{b0, a}\<close>; the same action on that state gives \<open>{a}\<close>, a different
  state.
\<close>

theorem SELECT_ANIMATION_twice_differs:
  "(case reducer env0 heap5 state9 (SelectAnimation ''a'' False) of
      Inr (h1, s1) \<Rightarrow>
        (case reducer env0 h1 s1 (SelectAnimation ''a'' False) of
           Inr (h2, s2) \<Rightarrow>
             selectedAnimationIds (timeline s1) = [''b0'', ''a''] \<and>
             selectedAnimationIds (timeline s2) = [''a''] \<and> s2 \<noteq> s1
         | Inl e \<Rightarrow> False)
    | Inl e \<Rightarrow> False)"
  by (simp add: selectAnimationId_def fixture_defs set_defs Let_def)

subsection \<open>Placing a new block\<close>








































end
